theory Spec2Isabelle
  imports Complex_Main "HOL-Library.Extended_Nat" "HOL-Library.Sublist"
begin

section \<open>SolSentry: on-chain security checks\<close>

text \<open>
  A shallow embedding of \<^verbatim>\<open>performSecurityChecks\<close> (the security-checks module) and of
  the concentration computation it shares with \<^verbatim>\<open>performTokenomicsAnalysis\<close>
  (\<^verbatim>\<open>Tokenomics.js\<close>).

  The JavaScript is asynchronous but strictly sequential (every provider call is awaited
  before the next statement), so a run is a pure function of what the five providers
  answer. A rejected promise (an uncaught exception) is the \<open>Inl\<close> of a sum type.
\<close>

subsection \<open>JavaScript values\<close>

text \<open>The two exceptions that escape \<^verbatim>\<open>performSecurityChecks\<close>:
  reading \<^verbatim>\<open>.includes\<close> of \<^verbatim>\<open>undefined\<close>, and a BigInt division by \<^verbatim>\<open>0n\<close>.\<close>

datatype exception = TypeError_includes_of_undefined | RangeError_division_by_zero

text \<open>
  An awaited call of an external client (\<^verbatim>\<open>axios.get\<close>, \<^verbatim>\<open>getMint\<close>) either throws
  or returns.
\<close>

datatype 'a response = Rejected | Resolved 'a

text \<open>
  JSON numbers that the code only compares and stores (USD amounts, a share, a transfer
  amount) are rationals: every finite double is one, and \<^verbatim>\<open><\<close> and \<^verbatim>\<open>>\<close> on doubles
  agree with the order of the rationals. An absent field (\<^verbatim>\<open>undefined\<close>) is \<open>None\<close>.

  \<^verbatim>\<open>a > b\<close> with an \<^verbatim>\<open>undefined\<close> operand compares with \<^verbatim>\<open>NaN\<close> and is false.
\<close>

definition js_gt :: "rat option \<Rightarrow> rat option \<Rightarrow> bool" where
  "js_gt a b = (case (a, b) of (Some x, Some y) \<Rightarrow> x > y | _ \<Rightarrow> False)"

text \<open>\<^verbatim>\<open>x || 0\<close> for a number or \<^verbatim>\<open>undefined\<close>: \<^verbatim>\<open>undefined\<close> and \<^verbatim>\<open>0\<close> are both falsy.\<close>

definition or_zero :: "rat option \<Rightarrow> rat" where
  "or_zero a = (case a of None \<Rightarrow> 0 | Some x \<Rightarrow> x)"

text \<open>\<^verbatim>\<open>s.includes(t)\<close>: \<^verbatim>\<open>t\<close> occurs in \<^verbatim>\<open>s\<close> as a contiguous substring.\<close>

definition js_includes :: "string \<Rightarrow> string \<Rightarrow> bool" where
  "js_includes s t = sublist t s"

text \<open>
  Token amounts are non-negative integers (\<^verbatim>\<open>BigInt(holder.amount)\<close>, the supply), so a
  BigInt here is a \<open>nat\<close>; BigInt division truncates, which on non-negative operands is
  \<open>div\<close>, and throws a RangeError on a zero divisor.

  \<^verbatim>\<open>Number(q)\<close> of a BigInt is the double nearest to \<open>q\<close>, ties to the even mantissa, and
  \<^verbatim>\<open>Infinity\<close> beyond the largest double. The doubles that occur are non-negative integers
  or \<^verbatim>\<open>Infinity\<close>: an \<open>enat\<close>. Every integer below \<open>2 ^ 53\<close> is a double.
\<close>

fun bit_length :: "nat \<Rightarrow> nat" where
  "bit_length n = (if n = 0 then 0 else Suc (bit_length (n div 2)))"

declare bit_length.simps [simp del]

definition to_double :: "nat \<Rightarrow> enat" where
  "to_double n =
     (if n < 2 ^ 53 then enat n
      else
        let e = bit_length n - 53;
            m = n div 2 ^ e;
            r = n mod 2 ^ e;
            half = 2 ^ (e - 1);
            m' = (if half < r \<or> (r = half \<and> odd m) then m + 1 else m)
        in if 2 ^ 1024 \<le> m' * 2 ^ e then \<infinity> else enat (m' * 2 ^ e))"

text \<open>
  \<^verbatim>\<open>a + b\<close> on two such doubles is the exact sum, rounded the same way.
\<close>

definition double_add :: "enat \<Rightarrow> enat \<Rightarrow> enat" where
  "double_add a b =
     (case a of
        enat x \<Rightarrow> (case b of enat y \<Rightarrow> to_double (x + y) | \<infinity> \<Rightarrow> \<infinity>)
      | \<infinity> \<Rightarrow> \<infinity>)"

subsection \<open>Provider payloads\<close>

text \<open>
  Payload fields have the types of the provider interfaces: an amount or a supply is an
  integer that \<^verbatim>\<open>BigInt\<close> accepts, a list field is a list. A field that may be missing
  is an \<open>option\<close>.

  \<^verbatim>\<open>mintInfo\<close> as \<^verbatim>\<open>getMint\<close> returns it: an authority is a public key or \<^verbatim>\<open>null\<close>.
\<close>

record mintInfo =
  mintAuthority :: "string option"
  freezeAuthority :: "string option"

record creator =
  address :: string
  share :: rat

text \<open>The Solscan token metadata: \<^verbatim>\<open>tokenMeta.creator\<close>, \<^verbatim>\<open>tokenMeta.supply\<close> and
  \<^verbatim>\<open>tokenMeta.holder\<close>, each of which may be absent.\<close>

record tokenMeta =
  meta_creator :: "creator option"
  meta_supply :: "nat option"
  meta_holder :: "nat option"

record holder_entry =
  owner :: string
  amount :: nat

text \<open>A DEXScreener pair; \<open>liquidity_usd\<close> is \<^verbatim>\<open>pair.liquidity?.usd\<close> and \<open>volume_h24\<close> is
  \<^verbatim>\<open>pair.volume?.h24\<close>.\<close>

record pair =
  dexId :: string
  pairAddress :: string
  liquidity_usd :: "rat option"
  volume_h24 :: "rat option"

text \<open>A Solscan transaction: \<^verbatim>\<open>tx.type\<close> and \<^verbatim>\<open>tx.amount\<close>.\<close>

record txn =
  tx_type :: string
  tx_amount :: "rat option"

text \<open>
  What the outside world answers. The chain reader is the whole body of the first
  \<^verbatim>\<open>try\<close> up to the awaited \<^verbatim>\<open>getMint\<close>: \<^verbatim>\<open>new PublicKey(tokenAddress)\<close> throws on a
  malformed address and \<^verbatim>\<open>getMint\<close> on a failed RPC call, both caught by the same handler.
  Each HTTP reader answers the field the helper reads (\<^verbatim>\<open>response.data.data\<close>,
  \<^verbatim>\<open>response.data.pairs\<close>), \<open>None\<close> when the field is absent or \<^verbatim>\<open>null\<close>; the two Solscan list
  readers also receive the page size or limit the helper puts in the URL.
\<close>

record providers =
  chainReader :: "string \<Rightarrow> mintInfo response"
  metaReader :: "string \<Rightarrow> tokenMeta option response"
  holderReader :: "string \<Rightarrow> nat \<Rightarrow> holder_entry list option response"
  pairReader :: "string \<Rightarrow> pair list option response"
  txReader :: "string \<Rightarrow> nat \<Rightarrow> txn list option response"

subsection \<open>The helpers\<close>

text \<open>Each helper catches every exception of its request and answers \<^verbatim>\<open>null\<close> or \<^verbatim>\<open>[]\<close>.\<close>

definition getTokenMeta :: "providers \<Rightarrow> string \<Rightarrow> tokenMeta option" where
  "getTokenMeta p tokenAddress =
     (case metaReader p tokenAddress of Rejected \<Rightarrow> None | Resolved d \<Rightarrow> d)"

definition getTopHolders :: "providers \<Rightarrow> string \<Rightarrow> nat \<Rightarrow> holder_entry list" where
  "getTopHolders p tokenAddress limit =
     (case holderReader p tokenAddress limit of
        Rejected \<Rightarrow> []
      | Resolved None \<Rightarrow> []
      | Resolved (Some hs) \<Rightarrow> hs)"

definition getDexPairs :: "providers \<Rightarrow> string \<Rightarrow> pair list" where
  "getDexPairs p tokenAddress =
     (case pairReader p tokenAddress of
        Rejected \<Rightarrow> []
      | Resolved None \<Rightarrow> []
      | Resolved (Some ps) \<Rightarrow> ps)"

definition getRecentTransactions :: "providers \<Rightarrow> string \<Rightarrow> nat \<Rightarrow> txn list" where
  "getRecentTransactions p tokenAddress limit =
     (case txReader p tokenAddress limit of
        Rejected \<Rightarrow> []
      | Resolved None \<Rightarrow> []
      | Resolved (Some ts) \<Rightarrow> ts)"

subsection \<open>The report\<close>

text \<open>A section starts as \<^verbatim>\<open>{}\<close>, and is then either replaced by a populated object or given
  an \<^verbatim>\<open>error\<close> property.\<close>

datatype 'a report_section = Empty | Error string | Populated 'a

record authorities =
  authorities_mintAuthority :: string
  authorities_freezeAuthority :: string

text \<open>\<^verbatim>\<open>adminKeys.creator\<close> is the template string
  \<^verbatim>\<open>`${address} (${share}% share)`\<close>, kept as its two arguments, or \<^verbatim>\<open>'Unknown'\<close>.\<close>

datatype creator_text = Creator_share_text string rat | Creator_unknown

record adminKeys =
  adminKeys_creator :: creator_text
  adminKeys_note :: string

record lpHealth =
  dex :: string
  liquidityUSD :: rat
  volume24h :: rat
  lp_pairAddress :: string
  lp_note :: string

text \<open>\<^verbatim>\<open>tokenMeta?.holder || 'Unknown'\<close>\<close>

datatype holder_count = Holders nat | Holders_unknown

record tokenDistribution =
  top10HoldersPercent :: enat
  holderCount :: holder_count

record transactionPatterns =
  recentTxCount :: nat
  potentialDumps :: nat
  tx_note :: string

record report =
  authorities :: "authorities report_section"
  adminKeys :: "adminKeys report_section"
  lpHealth :: "lpHealth report_section"
  tokenDistribution :: "tokenDistribution report_section"
  transactionPatterns :: "transactionPatterns report_section"
  riskScore :: int
  flags :: "string list"

definition initial_report :: report where
  "initial_report =
     \<lparr>authorities = Empty, adminKeys = Empty, lpHealth = Empty, tokenDistribution = Empty,
      transactionPatterns = Empty, riskScore = 0, flags = []\<rparr>"

subsection \<open>Flags and fixed strings\<close>

definition flag_mint :: string where
  "flag_mint = ''Mint authority active''"

definition flag_freeze :: string where
  "flag_freeze = ''Freeze authority active''"

definition flag_creator :: string where
  "flag_creator = ''Creator holds >10% share''"

definition flag_tiny_lp :: string where
  "flag_tiny_lp = ''Tiny LP (<$20k)''"

definition flag_lp_mint :: string where
  "flag_lp_mint = ''Potential LP risk due to active mint''"

definition flag_no_lp :: string where
  "flag_no_lp = ''No liquidity pools detected''"

definition flag_high :: string where
  "flag_high = ''High concentration (>50% in top 10)''"

definition flag_moderate :: string where
  "flag_moderate = ''Moderate concentration (>20% in top 10)''"

definition flag_dumps :: string where
  "flag_dumps = ''Recent large dumps detected''"

definition mint_active :: string where
  "mint_active = ''Active (Risk: Can mint more tokens)''"

definition freeze_active :: string where
  "freeze_active = ''Active (Risk: Can freeze tokens)''"

definition renounced :: string where
  "renounced = ''Renounced (Safe)''"

text \<open>\<^verbatim>\<open>report.flags.push(f); report.riskScore += d\<close>\<close>

definition raise_flag :: "string \<Rightarrow> int \<Rightarrow> report \<Rightarrow> report" where
  "raise_flag f d r = r\<lparr>flags := flags r @ [f], riskScore := riskScore r + d\<rparr>"

subsection \<open>The five checks\<close>

text \<open>
  1. Mint and freeze authorities: the \<^verbatim>\<open>try\<close> block and its handler. Nothing after the
  awaited \<^verbatim>\<open>getMint\<close> throws, so when the handler runs the section is still \<^verbatim>\<open>{}\<close>.
\<close>

definition check_authorities :: "mintInfo response \<Rightarrow> report \<Rightarrow> report" where
  "check_authorities res r =
     (case res of
        Rejected \<Rightarrow> r\<lparr>authorities := Error ''Failed to fetch on-chain mint info''\<rparr>
      | Resolved mi \<Rightarrow>
          let r1 = r\<lparr>authorities := Populated
                     \<lparr>authorities_mintAuthority =
                        (if mintAuthority mi \<noteq> None then mint_active else renounced),
                      authorities_freezeAuthority =
                        (if freezeAuthority mi \<noteq> None then freeze_active else renounced)\<rparr>\<rparr>;
              r2 = (if mintAuthority mi \<noteq> None then raise_flag flag_mint 30 r1 else r1)
          in if freezeAuthority mi \<noteq> None then raise_flag flag_freeze 20 r2 else r2)"

text \<open>2. Admin keys, from the token metadata.\<close>

definition check_adminKeys :: "tokenMeta option \<Rightarrow> report \<Rightarrow> report" where
  "check_adminKeys tm r =
     (case tm of
        None \<Rightarrow> r\<lparr>adminKeys := Error ''Failed to fetch token meta''\<rparr>
      | Some m \<Rightarrow>
          let r1 = r\<lparr>adminKeys := Populated
                     \<lparr>adminKeys_creator =
                        (case meta_creator m of
                           Some c \<Rightarrow> Creator_share_text (address c) (share c)
                         | None \<Rightarrow> Creator_unknown),
                      adminKeys_note = ''Check if creator wallet has multisig or renounced control (manual review recommended)''\<rparr>\<rparr>
          in (case meta_creator m of
                Some c \<Rightarrow> if share c > 10 then raise_flag flag_creator 15 r1 else r1
              | None \<Rightarrow> r1))"

text \<open>
  3. Liquidity-pool health. \<^verbatim>\<open>pairs.reduce(f, pairs[0])\<close> folds over every pair, the first
  included, keeping the later pair only when its liquidity is strictly greater.
  \<^verbatim>\<open>report.authorities.mintAuthority\<close> is \<^verbatim>\<open>undefined\<close> unless the first check populated
  the section, and \<^verbatim>\<open>undefined.includes\<close> throws a TypeError that nothing catches.
\<close>

definition main_pair :: "pair \<Rightarrow> pair list \<Rightarrow> pair" where
  "main_pair first ps =
     foldl (\<lambda>prev curr. if js_gt (liquidity_usd curr) (liquidity_usd prev) then curr else prev)
       first ps"

definition check_lpHealth :: "pair list \<Rightarrow> report \<Rightarrow> exception + report" where
  "check_lpHealth pairs r =
     (case pairs of
        [] \<Rightarrow> Inr (raise_flag flag_no_lp 30 (r\<lparr>lpHealth := Error ''No DEX pairs found''\<rparr>))
      | first # _ \<Rightarrow>
          let mainPair = main_pair first pairs;
              r1 = r\<lparr>lpHealth := Populated
                     \<lparr>dex = dexId mainPair,
                      liquidityUSD = or_zero (liquidity_usd mainPair),
                      volume24h = or_zero (volume_h24 mainPair),
                      lp_pairAddress = pairAddress mainPair,
                      lp_note = ''LP lock status: Use manual check on Solscan for LP mint supply/burns (advanced: integrate SolSniffer API)''\<rparr>\<rparr>;
              r2 = (if or_zero (liquidity_usd mainPair) < 20000
                    then raise_flag flag_tiny_lp 25 r1 else r1)
          in (case authorities r2 of
                Populated a \<Rightarrow>
                  Inr (if js_includes (authorities_mintAuthority a) ''Active''
                       then raise_flag flag_lp_mint 10 r2 else r2)
              | _ \<Rightarrow> Inl TypeError_includes_of_undefined))"

text \<open>
  4. Token distribution. The \<^verbatim>\<open>forEach\<close> body, shared word for word with
  \<^verbatim>\<open>Tokenomics.js\<close>: \<^verbatim>\<open>top10Percent += Number((balance * 100n) / totalSupply)\<close>. The
  division throws on the first holder when \<^verbatim>\<open>totalSupply\<close> is \<^verbatim>\<open>0n\<close>.
\<close>

fun sum_percent :: "nat \<Rightarrow> holder_entry list \<Rightarrow> enat \<Rightarrow> exception + enat" where
  "sum_percent totalSupply [] top10Percent = Inr top10Percent"
| "sum_percent totalSupply (h # hs) top10Percent =
     (if totalSupply = 0 then Inl RangeError_division_by_zero
      else sum_percent totalSupply hs
             (double_add top10Percent (to_double ((amount h * 100) div totalSupply))))"

text \<open>\<^verbatim>\<open>BigInt(tokenMeta?.supply || 0)\<close>: no metadata, no supply field and a supply of
  \<^verbatim>\<open>0\<close> all give \<^verbatim>\<open>0n\<close>.\<close>

definition total_supply :: "tokenMeta option \<Rightarrow> nat" where
  "total_supply tm =
     (case tm of None \<Rightarrow> 0 | Some m \<Rightarrow> (case meta_supply m of None \<Rightarrow> 0 | Some s \<Rightarrow> s))"

definition holder_count_of :: "tokenMeta option \<Rightarrow> holder_count" where
  "holder_count_of tm =
     (case tm of
        None \<Rightarrow> Holders_unknown
      | Some m \<Rightarrow>
          (case meta_holder m of
             None \<Rightarrow> Holders_unknown
           | Some n \<Rightarrow> if n = 0 then Holders_unknown else Holders n))"

definition check_tokenDistribution ::
  "tokenMeta option \<Rightarrow> holder_entry list \<Rightarrow> report \<Rightarrow> exception + report" where
  "check_tokenDistribution tm topHolders r =
     (if topHolders = [] then Inr (r\<lparr>tokenDistribution := Error ''Failed to fetch holders''\<rparr>)
      else
        (case sum_percent (total_supply tm) topHolders 0 of
           Inl e \<Rightarrow> Inl e
         | Inr top10Percent \<Rightarrow>
             let r1 = r\<lparr>tokenDistribution := Populated
                        \<lparr>top10HoldersPercent = top10Percent,
                         holderCount = holder_count_of tm\<rparr>\<rparr>
             in Inr (if top10Percent > 50 then raise_flag flag_high 25 r1
                     else if top10Percent > 20 then raise_flag flag_moderate 10 r1
                     else r1)))"

text \<open>5. Transaction patterns: the loop state is \<^verbatim>\<open>(sellCount, largeDumps)\<close>.\<close>

definition count_tx :: "nat \<times> nat \<Rightarrow> txn \<Rightarrow> nat \<times> nat" where
  "count_tx c tx =
     (case c of (sellCount, largeDumps) \<Rightarrow>
        if tx_type tx = ''transfer'' \<and> js_gt (tx_amount tx) (Some 1000000)
        then (sellCount + 1,
              if js_gt (tx_amount tx) (Some 10000000) then largeDumps + 1 else largeDumps)
        else (sellCount, largeDumps))"

definition check_transactionPatterns :: "txn list \<Rightarrow> report \<Rightarrow> report" where
  "check_transactionPatterns recentTx r =
     (if recentTx = [] then r\<lparr>transactionPatterns := Error ''Failed to fetch transactions''\<rparr>
      else
        let largeDumps = snd (foldl count_tx (0, 0) recentTx);
            r1 = r\<lparr>transactionPatterns := Populated
                   \<lparr>recentTxCount = length recentTx,
                    potentialDumps = largeDumps,
                    tx_note = ''Advanced: Analyze for bot patterns or unnatural spikes (integrate Birdeye API for volume trends)''\<rparr>\<rparr>
        in if largeDumps > 2 then raise_flag flag_dumps 20 r1 else r1)"

subsection \<open>The run\<close>

text \<open>The report as it stands before the cap of the last statement.\<close>

definition uncapped_checks :: "providers \<Rightarrow> string \<Rightarrow> exception + report" where
  "uncapped_checks p tokenAddress =
     (let r1 = check_authorities (chainReader p tokenAddress) initial_report;
          tokenMeta = getTokenMeta p tokenAddress;
          r2 = check_adminKeys tokenMeta r1
      in case check_lpHealth (getDexPairs p tokenAddress) r2 of
           Inl e \<Rightarrow> Inl e
         | Inr r3 \<Rightarrow>
             (case check_tokenDistribution tokenMeta (getTopHolders p tokenAddress 10) r3 of
                Inl e \<Rightarrow> Inl e
              | Inr r4 \<Rightarrow>
                  Inr (check_transactionPatterns (getRecentTransactions p tokenAddress 20) r4)))"

text \<open>\<^verbatim>\<open>report.riskScore = Math.min(report.riskScore, 100); return report\<close>\<close>

definition cap_score :: "report \<Rightarrow> report" where
  "cap_score r = r\<lparr>riskScore := min (riskScore r) 100\<rparr>"

definition performSecurityChecks :: "providers \<Rightarrow> string \<Rightarrow> exception + report" where
  "performSecurityChecks p tokenAddress =
     (case uncapped_checks p tokenAddress of Inl e \<Rightarrow> Inl e | Inr r \<Rightarrow> Inr (cap_score r))"

subsection \<open>The same loop in the tokenomics module\<close>

text \<open>
  \<^verbatim>\<open>Tokenomics.js\<close>, lines 124 to 130, runs the loop of \<open>sum_percent\<close> over
  \<^verbatim>\<open>topHolders.slice(0, 10)\<close>. Its \<^verbatim>\<open>totalSupply\<close> is a parameter here: when the metadata
  carry no supply the module computes it from a floating-point product.
\<close>

definition tokenomics_top10Percent :: "nat \<Rightarrow> holder_entry list \<Rightarrow> exception + enat" where
  "tokenomics_top10Percent totalSupply topHolders = sum_percent totalSupply (take 10 topHolders) 0"

subsection \<open>The score deltas\<close>

text \<open>
  Every \<^verbatim>\<open>report.flags.push(f)\<close> of the source is followed by one
  \<^verbatim>\<open>report.riskScore += d\<close>; this is the table of those pairs, rule by rule.
\<close>

definition score_delta :: "string \<Rightarrow> int" where
  "score_delta f =
     (if f = flag_mint then 30
      else if f = flag_freeze then 20
      else if f = flag_creator then 15
      else if f = flag_tiny_lp then 25
      else if f = flag_lp_mint then 10
      else if f = flag_no_lp then 30
      else if f = flag_high then 25
      else if f = flag_moderate then 10
      else if f = flag_dumps then 20
      else 0)"

text \<open>The score agrees with the flags pushed so far.\<close>

definition scored :: "report \<Rightarrow> bool" where
  "scored r = (riskScore r = sum_list (map score_delta (flags r)))"

subsection \<open>The rules, one by one\<close>

text \<open>
  The flags each check appends, as functions of what the providers answered. They are
  compared with the run below (\<open>uncapped_flags\<close>).
\<close>

definition authority_flags :: "mintInfo response \<Rightarrow> string list" where
  "authority_flags res =
     (case res of
        Rejected \<Rightarrow> []
      | Resolved mi \<Rightarrow>
          (if mintAuthority mi \<noteq> None then [flag_mint] else []) @
          (if freezeAuthority mi \<noteq> None then [flag_freeze] else []))"

definition creator_flags :: "tokenMeta option \<Rightarrow> string list" where
  "creator_flags tm =
     (case tm of
        None \<Rightarrow> []
      | Some m \<Rightarrow>
          (case meta_creator m of
             None \<Rightarrow> []
           | Some c \<Rightarrow> if share c > 10 then [flag_creator] else []))"

definition liquidity_flags :: "mintInfo response \<Rightarrow> pair list \<Rightarrow> string list" where
  "liquidity_flags res pairs =
     (case pairs of
        [] \<Rightarrow> [flag_no_lp]
      | first # _ \<Rightarrow>
          (if or_zero (liquidity_usd (main_pair first pairs)) < 20000 then [flag_tiny_lp] else []) @
          (case res of
             Rejected \<Rightarrow> []
           | Resolved mi \<Rightarrow> if mintAuthority mi \<noteq> None then [flag_lp_mint] else []))"

definition concentration_flags :: "enat \<Rightarrow> string list" where
  "concentration_flags top10Percent =
     (if top10Percent > 50 then [flag_high]
      else if top10Percent > 20 then [flag_moderate]
      else [])"

definition dump_flags :: "txn list \<Rightarrow> string list" where
  "dump_flags recentTx =
     (if recentTx \<noteq> [] \<and> snd (foldl count_tx (0, 0) recentTx) > 2 then [flag_dumps] else [])"

subsection \<open>Example provider answers\<close>

text \<open>The token address of the module's own example run.\<close>

definition example_token :: string where
  "example_token = ''Pumpui3xvBFpX4vvVBy42SYLiR8Kwg8tr6V3TaBQM7b''"

text \<open>Every rule but the large-dump rule fires: the deltas add up to 125.\<close>

definition risky_providers :: providers where
  "risky_providers =
     \<lparr>chainReader = (\<lambda>_. Resolved \<lparr>mintAuthority = Some ''Auth1'', freezeAuthority = Some ''Auth2''\<rparr>),
      metaReader = (\<lambda>_. Resolved (Some
        \<lparr>meta_creator = Some \<lparr>address = ''Creator1'', share = 50\<rparr>,
         meta_supply = Some 1000, meta_holder = Some 2\<rparr>)),
      holderReader = (\<lambda>_ _. Resolved (Some
        [\<lparr>owner = ''Wallet1'', amount = 600\<rparr>, \<lparr>owner = ''Wallet2'', amount = 400\<rparr>])),
      pairReader = (\<lambda>_. Resolved (Some
        [\<lparr>dexId = ''raydium'', pairAddress = ''Pair1'', liquidity_usd = Some 100,
          volume_h24 = Some 5\<rparr>])),
      txReader = (\<lambda>_ _. Rejected)\<rparr>"

text \<open>Renounced authorities and one deep pool: no rule fires.\<close>

definition quiet_providers :: providers where
  "quiet_providers =
     \<lparr>chainReader = (\<lambda>_. Resolved \<lparr>mintAuthority = None, freezeAuthority = None\<rparr>),
      metaReader = (\<lambda>_. Rejected),
      holderReader = (\<lambda>_ _. Rejected),
      pairReader = (\<lambda>_. Resolved (Some
        [\<lparr>dexId = ''raydium'', pairAddress = ''Pair1'', liquidity_usd = Some 50000,
          volume_h24 = Some 5\<rparr>])),
      txReader = (\<lambda>_ _. Rejected)\<rparr>"

text \<open>The chain reader and every reader but the DEX-pair reader fail.\<close>

definition chain_down_providers :: providers where
  "chain_down_providers =
     \<lparr>chainReader = (\<lambda>_. Rejected),
      metaReader = (\<lambda>_. Rejected),
      holderReader = (\<lambda>_ _. Rejected),
      pairReader = (\<lambda>_. Resolved (Some
        [\<lparr>dexId = ''raydium'', pairAddress = ''Pair1'', liquidity_usd = Some 50000,
          volume_h24 = Some 5\<rparr>])),
      txReader = (\<lambda>_ _. Rejected)\<rparr>"

text \<open>Only the chain reader fails; the four HTTP readers answer with data.\<close>

definition only_chain_down_providers :: providers where
  "only_chain_down_providers =
     \<lparr>chainReader = (\<lambda>_. Rejected),
      metaReader = (\<lambda>_. Resolved (Some
        \<lparr>meta_creator = Some \<lparr>address = ''Creator1'', share = 5\<rparr>,
         meta_supply = Some 1000, meta_holder = Some 2\<rparr>)),
      holderReader = (\<lambda>_ _. Resolved (Some
        [\<lparr>owner = ''Wallet1'', amount = 100\<rparr>, \<lparr>owner = ''Wallet2'', amount = 50\<rparr>])),
      pairReader = (\<lambda>_. Resolved (Some
        [\<lparr>dexId = ''raydium'', pairAddress = ''Pair1'', liquidity_usd = Some 50000,
          volume_h24 = Some 5\<rparr>])),
      txReader = (\<lambda>_ _. Resolved (Some [\<lparr>tx_type = ''transfer'', tx_amount = Some 10\<rparr>]))\<rparr>"

text \<open>Every reader answers, but the metadata carry no \<^verbatim>\<open>supply\<close> field.\<close>

definition no_supply_providers :: providers where
  "no_supply_providers =
     \<lparr>chainReader = (\<lambda>_. Resolved \<lparr>mintAuthority = None, freezeAuthority = None\<rparr>),
      metaReader = (\<lambda>_. Resolved (Some
        \<lparr>meta_creator = None, meta_supply = None, meta_holder = Some 2\<rparr>)),
      holderReader = (\<lambda>_ _. Resolved (Some
        [\<lparr>owner = ''Wallet1'', amount = 600\<rparr>, \<lparr>owner = ''Wallet2'', amount = 400\<rparr>])),
      pairReader = (\<lambda>_. Resolved (Some
        [\<lparr>dexId = ''raydium'', pairAddress = ''Pair1'', liquidity_usd = Some 50000,
          volume_h24 = Some 5\<rparr>])),
      txReader = (\<lambda>_ _. Resolved (Some [\<lparr>tx_type = ''transfer'', tx_amount = Some 10\<rparr>]))\<rparr>"

text \<open>Every reader fails.\<close>

definition silent_providers :: providers where
  "silent_providers =
     \<lparr>chainReader = (\<lambda>_. Rejected),
      metaReader = (\<lambda>_. Rejected),
      holderReader = (\<lambda>_ _. Rejected),
      pairReader = (\<lambda>_. Rejected),
      txReader = (\<lambda>_ _. Rejected)\<rparr>"

text \<open>Both authorities are active, one deep pool is listed, and nothing else is known.\<close>

definition authority_only_providers :: providers where
  "authority_only_providers =
     \<lparr>chainReader = (\<lambda>_. Resolved \<lparr>mintAuthority = Some ''Auth1'', freezeAuthority = Some ''Auth2''\<rparr>),
      metaReader = (\<lambda>_. Rejected),
      holderReader = (\<lambda>_ _. Rejected),
      pairReader = (\<lambda>_. Resolved (Some
        [\<lparr>dexId = ''raydium'', pairAddress = ''Pair1'', liquidity_usd = Some 50000,
          volume_h24 = Some 5\<rparr>])),
      txReader = (\<lambda>_ _. Rejected)\<rparr>"

text \<open>Three holders of a supply of 1000, the last one with half a percent.\<close>

definition long_tail_providers :: providers where
  "long_tail_providers =
     \<lparr>chainReader = (\<lambda>_. Resolved \<lparr>mintAuthority = None, freezeAuthority = None\<rparr>),
      metaReader = (\<lambda>_. Resolved (Some
        \<lparr>meta_creator = None, meta_supply = Some 1000, meta_holder = Some 3\<rparr>)),
      holderReader = (\<lambda>_ _. Resolved (Some
        [\<lparr>owner = ''Wallet1'', amount = 600\<rparr>, \<lparr>owner = ''Wallet2'', amount = 395\<rparr>,
         \<lparr>owner = ''Wallet3'', amount = 5\<rparr>])),
      pairReader = (\<lambda>_. Resolved (Some
        [\<lparr>dexId = ''raydium'', pairAddress = ''Pair1'', liquidity_usd = Some 50000,
          volume_h24 = Some 5\<rparr>])),
      txReader = (\<lambda>_ _. Rejected)\<rparr>"

section \<open>Properties\<close>

subsection \<open>Strings and numbers\<close>

lemma flag_neq [simp]:
  "flag_mint \<noteq> flag_freeze"
  "flag_mint \<noteq> flag_creator"
  "flag_mint \<noteq> flag_tiny_lp"
  "flag_mint \<noteq> flag_lp_mint"
  "flag_mint \<noteq> flag_no_lp"
  "flag_mint \<noteq> flag_high"
  "flag_mint \<noteq> flag_moderate"
  "flag_mint \<noteq> flag_dumps"
  "flag_freeze \<noteq> flag_mint"
  "flag_freeze \<noteq> flag_creator"
  "flag_freeze \<noteq> flag_tiny_lp"
  "flag_freeze \<noteq> flag_lp_mint"
  "flag_freeze \<noteq> flag_no_lp"
  "flag_freeze \<noteq> flag_high"
  "flag_freeze \<noteq> flag_moderate"
  "flag_freeze \<noteq> flag_dumps"
  "flag_creator \<noteq> flag_mint"
  "flag_creator \<noteq> flag_freeze"
  "flag_creator \<noteq> flag_tiny_lp"
  "flag_creator \<noteq> flag_lp_mint"
  "flag_creator \<noteq> flag_no_lp"
  "flag_creator \<noteq> flag_high"
  "flag_creator \<noteq> flag_moderate"
  "flag_creator \<noteq> flag_dumps"
  "flag_tiny_lp \<noteq> flag_mint"
  "flag_tiny_lp \<noteq> flag_freeze"
  "flag_tiny_lp \<noteq> flag_creator"
  "flag_tiny_lp \<noteq> flag_lp_mint"
  "flag_tiny_lp \<noteq> flag_no_lp"
  "flag_tiny_lp \<noteq> flag_high"
  "flag_tiny_lp \<noteq> flag_moderate"
  "flag_tiny_lp \<noteq> flag_dumps"
  "flag_lp_mint \<noteq> flag_mint"
  "flag_lp_mint \<noteq> flag_freeze"
  "flag_lp_mint \<noteq> flag_creator"
  "flag_lp_mint \<noteq> flag_tiny_lp"
  "flag_lp_mint \<noteq> flag_no_lp"
  "flag_lp_mint \<noteq> flag_high"
  "flag_lp_mint \<noteq> flag_moderate"
  "flag_lp_mint \<noteq> flag_dumps"
  "flag_no_lp \<noteq> flag_mint"
  "flag_no_lp \<noteq> flag_freeze"
  "flag_no_lp \<noteq> flag_creator"
  "flag_no_lp \<noteq> flag_tiny_lp"
  "flag_no_lp \<noteq> flag_lp_mint"
  "flag_no_lp \<noteq> flag_high"
  "flag_no_lp \<noteq> flag_moderate"
  "flag_no_lp \<noteq> flag_dumps"
  "flag_high \<noteq> flag_mint"
  "flag_high \<noteq> flag_freeze"
  "flag_high \<noteq> flag_creator"
  "flag_high \<noteq> flag_tiny_lp"
  "flag_high \<noteq> flag_lp_mint"
  "flag_high \<noteq> flag_no_lp"
  "flag_high \<noteq> flag_moderate"
  "flag_high \<noteq> flag_dumps"
  "flag_moderate \<noteq> flag_mint"
  "flag_moderate \<noteq> flag_freeze"
  "flag_moderate \<noteq> flag_creator"
  "flag_moderate \<noteq> flag_tiny_lp"
  "flag_moderate \<noteq> flag_lp_mint"
  "flag_moderate \<noteq> flag_no_lp"
  "flag_moderate \<noteq> flag_high"
  "flag_moderate \<noteq> flag_dumps"
  "flag_dumps \<noteq> flag_mint"
  "flag_dumps \<noteq> flag_freeze"
  "flag_dumps \<noteq> flag_creator"
  "flag_dumps \<noteq> flag_tiny_lp"
  "flag_dumps \<noteq> flag_lp_mint"
  "flag_dumps \<noteq> flag_no_lp"
  "flag_dumps \<noteq> flag_high"
  "flag_dumps \<noteq> flag_moderate"
  by (simp_all add: flag_mint_def flag_freeze_def flag_creator_def flag_tiny_lp_def flag_lp_mint_def flag_no_lp_def flag_high_def flag_moderate_def flag_dumps_def)

lemma includes_mint_active [simp]: "js_includes mint_active ''Active''"
  by (simp add: js_includes_def mint_active_def sublist_code)

lemma includes_renounced [simp]: "\<not> js_includes renounced ''Active''"
  by (simp add: js_includes_def renounced_def sublist_code)

lemma score_delta_simps [simp]:
  "score_delta flag_mint = 30" "score_delta flag_freeze = 20" "score_delta flag_creator = 15"
  "score_delta flag_tiny_lp = 25" "score_delta flag_lp_mint = 10" "score_delta flag_no_lp = 30"
  "score_delta flag_high = 25" "score_delta flag_moderate = 10" "score_delta flag_dumps = 20"
  by (simp_all add: score_delta_def)

lemma score_delta_nonneg: "0 \<le> score_delta f"
  by (simp add: score_delta_def)

lemma score_sum_nonneg: "0 \<le> sum_list (map score_delta fs)"
  by (induction fs) (simp_all add: score_delta_nonneg)

lemma to_double_exact: "n < 2 ^ 53 \<Longrightarrow> to_double n = enat n"
  by (simp add: to_double_def)

lemma double_add_exact: "x + y < 2 ^ 53 \<Longrightarrow> double_add (enat x) (enat y) = enat (x + y)"
  by (simp add: double_add_def to_double_exact)

lemma enat_zero_num: "(0::enat) = enat 0"
  by (simp add: zero_enat_def)

subsection \<open>The score is the sum of the deltas of the flags\<close>

lemma raise_flag_simps [simp]:
  "flags (raise_flag f d r) = flags r @ [f]"
  "riskScore (raise_flag f d r) = riskScore r + d"
  "authorities (raise_flag f d r) = authorities r"
  "adminKeys (raise_flag f d r) = adminKeys r"
  "lpHealth (raise_flag f d r) = lpHealth r"
  "tokenDistribution (raise_flag f d r) = tokenDistribution r"
  "transactionPatterns (raise_flag f d r) = transactionPatterns r"
  by (simp_all add: raise_flag_def)

lemma scored_initial: "scored initial_report"
  by (simp add: scored_def initial_report_def)

lemma scored_check_authorities: "scored r \<Longrightarrow> scored (check_authorities res r)"
  by (cases res) (simp_all add: scored_def check_authorities_def Let_def)

lemma scored_check_adminKeys: "scored r \<Longrightarrow> scored (check_adminKeys tm r)"
  by (simp add: scored_def check_adminKeys_def Let_def split: option.splits)

lemma scored_check_lpHealth: "scored r \<Longrightarrow> check_lpHealth ps r = Inr r' \<Longrightarrow> scored r'"
  by (auto simp: scored_def check_lpHealth_def Let_def split: list.splits report_section.splits if_splits)

lemma scored_check_tokenDistribution:
  "scored r \<Longrightarrow> check_tokenDistribution tm hs r = Inr r' \<Longrightarrow> scored r'"
  by (auto simp: scored_def check_tokenDistribution_def Let_def split: sum.splits if_splits)

lemma scored_check_transactionPatterns: "scored r \<Longrightarrow> scored (check_transactionPatterns ts r)"
  by (simp add: scored_def check_transactionPatterns_def Let_def)

lemma scored_uncapped: "uncapped_checks p a = Inr r \<Longrightarrow> scored r"
  unfolding uncapped_checks_def Let_def
  by (auto split: sum.splits
      intro!: scored_check_transactionPatterns
      dest!: scored_check_tokenDistribution [rotated] scored_check_lpHealth [rotated]
      intro: scored_check_adminKeys scored_check_authorities scored_initial)

lemma capped_run:
  "performSecurityChecks p a = Inr r \<Longrightarrow>
     \<exists>r'. uncapped_checks p a = Inr r' \<and> r = cap_score r'"
  by (auto simp: performSecurityChecks_def split: sum.splits)

subsection \<open>The flags of a run\<close>

lemma check_authorities_flags:
  "flags (check_authorities res r) = flags r @ authority_flags res"
  by (cases res) (simp_all add: check_authorities_def authority_flags_def Let_def)

lemma check_authorities_section:
  "authorities (check_authorities res r) =
     (case res of
        Rejected \<Rightarrow> Error ''Failed to fetch on-chain mint info''
      | Resolved mi \<Rightarrow> Populated
          \<lparr>authorities_mintAuthority = (if mintAuthority mi \<noteq> None then mint_active else renounced),
           authorities_freezeAuthority = (if freezeAuthority mi \<noteq> None then freeze_active else renounced)\<rparr>)"
  by (cases res) (simp_all add: check_authorities_def Let_def)

lemma check_adminKeys_flags:
  "flags (check_adminKeys tm r) = flags r @ creator_flags tm"
  by (simp add: check_adminKeys_def creator_flags_def Let_def split: option.splits)

lemma check_adminKeys_authorities:
  "authorities (check_adminKeys tm r) = authorities r"
  by (simp add: check_adminKeys_def Let_def split: option.splits)

lemma check_lpHealth_flags:
  assumes "check_lpHealth pairs r = Inr r'"
    and "authorities r = authorities (check_authorities res r0)"
  shows "flags r' = flags r @ liquidity_flags res pairs"
proof (cases pairs)
  case Nil
  with assms(1) show ?thesis
    by (auto simp: check_lpHealth_def liquidity_flags_def)
next
  case (Cons first rest)
  show ?thesis
  proof (cases res)
    case Rejected
    with assms Cons show ?thesis
      by (auto simp: check_lpHealth_def check_authorities_section Let_def split: if_splits)
  next
    case (Resolved mi)
    with assms Cons show ?thesis
      by (auto simp: check_lpHealth_def check_authorities_section liquidity_flags_def Let_def
          split: if_splits)
  qed
qed

lemma check_tokenDistribution_flags:
  assumes "check_tokenDistribution tm hs r = Inr r'"
  shows "flags r' = flags r @
           (if hs = [] then []
            else case sum_percent (total_supply tm) hs 0 of
                   Inl e \<Rightarrow> [] | Inr t \<Rightarrow> concentration_flags t)"
  using assms
  by (auto simp: check_tokenDistribution_def concentration_flags_def Let_def
      split: if_splits sum.splits)

lemma check_transactionPatterns_flags:
  "flags (check_transactionPatterns ts r) = flags r @ dump_flags ts"
  by (simp add: check_transactionPatterns_def dump_flags_def Let_def)

lemma uncapped_flags:
  assumes "uncapped_checks p a = Inr r"
  shows "flags r =
           authority_flags (chainReader p a) @
           creator_flags (getTokenMeta p a) @
           liquidity_flags (chainReader p a) (getDexPairs p a) @
           (if getTopHolders p a 10 = [] then []
            else case sum_percent (total_supply (getTokenMeta p a)) (getTopHolders p a 10) 0 of
                   Inl e \<Rightarrow> [] | Inr t \<Rightarrow> concentration_flags t) @
           dump_flags (getRecentTransactions p a 20)"
proof -
  let ?r1 = "check_authorities (chainReader p a) initial_report"
  let ?r2 = "check_adminKeys (getTokenMeta p a) ?r1"
  from assms obtain r3 r4 where
    lp: "check_lpHealth (getDexPairs p a) ?r2 = Inr r3" and
    td: "check_tokenDistribution (getTokenMeta p a) (getTopHolders p a 10) r3 = Inr r4" and
    r: "r = check_transactionPatterns (getRecentTransactions p a 20) r4"
    by (auto simp: uncapped_checks_def Let_def split: sum.splits)
  have "flags ?r2 = authority_flags (chainReader p a) @ creator_flags (getTokenMeta p a)"
    by (simp add: check_adminKeys_flags check_authorities_flags initial_report_def)
  moreover have "flags r3 = flags ?r2 @ liquidity_flags (chainReader p a) (getDexPairs p a)"
    by (rule check_lpHealth_flags [OF lp]) (simp add: check_adminKeys_authorities)
  ultimately show ?thesis
    by (simp add: r check_transactionPatterns_flags check_tokenDistribution_flags [OF td])
qed

subsection \<open>The sections of a run\<close>

lemma check_lpHealth_undefined:
  "authorities r = Error msg \<Longrightarrow> pairs \<noteq> [] \<Longrightarrow>
     check_lpHealth pairs r = Inl TypeError_includes_of_undefined"
  by (cases pairs) (simp_all add: check_lpHealth_def Let_def)

lemma check_lpHealth_section:
  "check_lpHealth pairs r = Inr r' \<Longrightarrow>
     lpHealth r' =
       (case pairs of
          [] \<Rightarrow> Error ''No DEX pairs found''
        | first # _ \<Rightarrow> Populated
            \<lparr>dex = dexId (main_pair first pairs),
             liquidityUSD = or_zero (liquidity_usd (main_pair first pairs)),
             volume24h = or_zero (volume_h24 (main_pair first pairs)),
             lp_pairAddress = pairAddress (main_pair first pairs),
             lp_note = ''LP lock status: Use manual check on Solscan for LP mint supply/burns (advanced: integrate SolSniffer API)''\<rparr>)"
  by (auto simp: check_lpHealth_def Let_def split: list.splits report_section.splits if_splits)

lemma check_tokenDistribution_frame:
  "check_tokenDistribution tm hs r = Inr r' \<Longrightarrow>
     authorities r' = authorities r \<and> adminKeys r' = adminKeys r \<and> lpHealth r' = lpHealth r \<and>
     transactionPatterns r' = transactionPatterns r"
  by (auto simp: check_tokenDistribution_def Let_def split: if_splits sum.splits)

lemma check_tokenDistribution_section:
  "check_tokenDistribution tm hs r = Inr r' \<Longrightarrow>
     tokenDistribution r' =
       (if hs = [] then Error ''Failed to fetch holders''
        else case sum_percent (total_supply tm) hs 0 of
               Inl e \<Rightarrow> Empty
             | Inr t \<Rightarrow> Populated \<lparr>top10HoldersPercent = t, holderCount = holder_count_of tm\<rparr>)"
  by (auto simp: check_tokenDistribution_def Let_def split: if_splits sum.splits)

lemma check_transactionPatterns_frame:
  "authorities (check_transactionPatterns ts r) = authorities r"
  "adminKeys (check_transactionPatterns ts r) = adminKeys r"
  "lpHealth (check_transactionPatterns ts r) = lpHealth r"
  "tokenDistribution (check_transactionPatterns ts r) = tokenDistribution r"
  by (simp_all add: check_transactionPatterns_def Let_def)

lemma cap_score_frame:
  "authorities (cap_score r) = authorities r"
  "adminKeys (cap_score r) = adminKeys r"
  "lpHealth (cap_score r) = lpHealth r"
  "tokenDistribution (cap_score r) = tokenDistribution r"
  "transactionPatterns (cap_score r) = transactionPatterns r"
  "flags (cap_score r) = flags r"
  by (simp_all add: cap_score_def)

lemma sum_percent_zero_supply: "hs \<noteq> [] \<Longrightarrow> sum_percent 0 hs acc = Inl RangeError_division_by_zero"
  by (cases hs) simp_all

lemma check_tokenDistribution_zero_supply:
  "total_supply tm = 0 \<Longrightarrow> hs \<noteq> [] \<Longrightarrow>
     check_tokenDistribution tm hs r = Inl RangeError_division_by_zero"
  by (simp add: check_tokenDistribution_def sum_percent_zero_supply)

lemma run_steps:
  assumes "performSecurityChecks p a = Inr r"
  obtains r3 r4 where
    "check_lpHealth (getDexPairs p a)
       (check_adminKeys (getTokenMeta p a) (check_authorities (chainReader p a) initial_report)) = Inr r3"
    "check_tokenDistribution (getTokenMeta p a) (getTopHolders p a 10) r3 = Inr r4"
    "r = cap_score (check_transactionPatterns (getRecentTransactions p a 20) r4)"
  using assms
  by (auto simp: performSecurityChecks_def uncapped_checks_def Let_def split: sum.splits)

lemma run_lpHealth:
  assumes "performSecurityChecks p a = Inr r"
  shows "lpHealth r =
       (case getDexPairs p a of
          [] \<Rightarrow> Error ''No DEX pairs found''
        | first # _ \<Rightarrow> Populated
            \<lparr>dex = dexId (main_pair first (getDexPairs p a)),
             liquidityUSD = or_zero (liquidity_usd (main_pair first (getDexPairs p a))),
             volume24h = or_zero (volume_h24 (main_pair first (getDexPairs p a))),
             lp_pairAddress = pairAddress (main_pair first (getDexPairs p a)),
             lp_note = ''LP lock status: Use manual check on Solscan for LP mint supply/burns (advanced: integrate SolSniffer API)''\<rparr>)"
proof -
  from assms obtain r3 r4 where
    lp: "check_lpHealth (getDexPairs p a)
       (check_adminKeys (getTokenMeta p a) (check_authorities (chainReader p a) initial_report)) = Inr r3"
    and td: "check_tokenDistribution (getTokenMeta p a) (getTopHolders p a 10) r3 = Inr r4"
    and r: "r = cap_score (check_transactionPatterns (getRecentTransactions p a 20) r4)"
    by (rule run_steps)
  have "lpHealth r = lpHealth r3"
    using check_tokenDistribution_frame [OF td]
    by (simp add: r cap_score_frame check_transactionPatterns_frame)
  then show ?thesis
    by (simp add: check_lpHealth_section [OF lp])
qed

lemma run_tokenDistribution:
  assumes "performSecurityChecks p a = Inr r"
  shows "tokenDistribution r =
       (if getTopHolders p a 10 = [] then Error ''Failed to fetch holders''
        else case sum_percent (total_supply (getTokenMeta p a)) (getTopHolders p a 10) 0 of
               Inl e \<Rightarrow> Empty
             | Inr t \<Rightarrow> Populated
                 \<lparr>top10HoldersPercent = t, holderCount = holder_count_of (getTokenMeta p a)\<rparr>)"
proof -
  from assms obtain r3 r4 where
    td: "check_tokenDistribution (getTokenMeta p a) (getTopHolders p a 10) r3 = Inr r4"
    and r: "r = cap_score (check_transactionPatterns (getRecentTransactions p a 20) r4)"
    by (rule run_steps)
  show ?thesis
    by (simp add: r cap_score_frame check_transactionPatterns_frame
        check_tokenDistribution_section [OF td])
qed

lemma run_authorities:
  assumes "performSecurityChecks p a = Inr r"
  shows "authorities r = authorities (check_authorities (chainReader p a) initial_report)"
proof -
  from assms obtain r3 r4 where
    lp: "check_lpHealth (getDexPairs p a)
       (check_adminKeys (getTokenMeta p a) (check_authorities (chainReader p a) initial_report)) = Inr r3"
    and td: "check_tokenDistribution (getTokenMeta p a) (getTopHolders p a 10) r3 = Inr r4"
    and r: "r = cap_score (check_transactionPatterns (getRecentTransactions p a 20) r4)"
    by (rule run_steps)
  have "authorities r3 =
          authorities (check_adminKeys (getTokenMeta p a) (check_authorities (chainReader p a) initial_report))"
    using lp by (auto simp: check_lpHealth_def Let_def split: list.splits report_section.splits if_splits)
  then show ?thesis
    using check_tokenDistribution_frame [OF td]
    by (simp add: r cap_score_frame check_transactionPatterns_frame check_adminKeys_authorities)
qed

lemma run_flags:
  assumes "performSecurityChecks p a = Inr r"
  shows "flags r =
           authority_flags (chainReader p a) @
           creator_flags (getTokenMeta p a) @
           liquidity_flags (chainReader p a) (getDexPairs p a) @
           (if getTopHolders p a 10 = [] then []
            else case sum_percent (total_supply (getTokenMeta p a)) (getTopHolders p a 10) 0 of
                   Inl e \<Rightarrow> [] | Inr t \<Rightarrow> concentration_flags t) @
           dump_flags (getRecentTransactions p a 20)"
proof -
  from assms obtain r' where "uncapped_checks p a = Inr r'" "r = cap_score r'"
    using capped_run by blast
  then show ?thesis
    by (simp add: uncapped_flags cap_score_frame)
qed

subsection \<open>Which flags a run raises\<close>

lemma getDexPairs_Cons_iff:
  "getDexPairs p a = first # rest \<longleftrightarrow> pairReader p a = Resolved (Some (first # rest))"
  by (auto simp: getDexPairs_def split: response.splits option.splits)

lemma getDexPairs_Nil_iff:
  "getDexPairs p a = [] \<longleftrightarrow>
     pairReader p a = Rejected \<or> pairReader p a = Resolved None \<or> pairReader p a = Resolved (Some [])"
  by (auto simp: getDexPairs_def split: response.splits option.splits)

lemma getTokenMeta_Some_iff:
  "getTokenMeta p a = Some m \<longleftrightarrow> metaReader p a = Resolved (Some m)"
  by (auto simp: getTokenMeta_def split: response.splits)

lemma getTopHolders_nonempty_iff:
  "getTopHolders p a n \<noteq> [] \<longleftrightarrow> (\<exists>hs. holderReader p a n = Resolved (Some hs) \<and> hs \<noteq> [])"
  by (auto simp: getTopHolders_def split: response.splits option.splits)

lemma getTopHolders_Resolved: "holderReader p a n = Resolved (Some hs) \<Longrightarrow> getTopHolders p a n = hs"
  by (simp add: getTopHolders_def)

lemma getRecentTransactions_nonempty_iff:
  "getRecentTransactions p a n \<noteq> [] \<longleftrightarrow> (\<exists>ts. txReader p a n = Resolved (Some ts) \<and> ts \<noteq> [])"
  by (auto simp: getRecentTransactions_def split: response.splits option.splits)

lemma getRecentTransactions_Resolved:
  "txReader p a n = Resolved (Some ts) \<Longrightarrow> getRecentTransactions p a n = ts"
  by (simp add: getRecentTransactions_def)

lemma foldl_count_tx_Nil: "snd (foldl count_tx (0, 0) []) = 0"
  by simp

lemma authority_flags_set:
  "set (authority_flags res) =
     {f. (f = flag_mint \<and> (\<exists>mi. res = Resolved mi \<and> mintAuthority mi \<noteq> None)) \<or>
         (f = flag_freeze \<and> (\<exists>mi. res = Resolved mi \<and> freezeAuthority mi \<noteq> None))}"
  by (cases res) (auto simp: authority_flags_def)

lemma creator_flags_set:
  "set (creator_flags tm) =
     {f. f = flag_creator \<and> (\<exists>m c. tm = Some m \<and> meta_creator m = Some c \<and> share c > 10)}"
proof (cases tm)
  case None
  then show ?thesis by (simp add: creator_flags_def)
next
  case (Some m)
  then show ?thesis
    by (cases "meta_creator m") (auto simp: creator_flags_def)
qed

lemma liquidity_flags_set:
  "set (liquidity_flags res pairs) =
     {f. (f = flag_no_lp \<and> pairs = []) \<or>
         (f = flag_tiny_lp \<and> (\<exists>first rest. pairs = first # rest \<and>
            or_zero (liquidity_usd (main_pair first pairs)) < 20000)) \<or>
         (f = flag_lp_mint \<and> pairs \<noteq> [] \<and> (\<exists>mi. res = Resolved mi \<and> mintAuthority mi \<noteq> None))}"
  by (cases pairs; cases res) (auto simp: liquidity_flags_def)

lemma concentration_flags_set:
  "set (concentration_flags t) =
     {f. (f = flag_high \<and> 50 < t) \<or> (f = flag_moderate \<and> 20 < t \<and> t \<le> 50)}"
  by (auto simp: concentration_flags_def)

lemma dump_flags_set:
  "set (dump_flags ts) = {f. f = flag_dumps \<and> 2 < snd (foldl count_tx (0, 0) ts)}"
  by (cases ts) (auto simp: dump_flags_def)

lemma holder_flags_set:
  "set (if hs = [] then []
        else case sum_percent s hs 0 of Inl e \<Rightarrow> [] | Inr t \<Rightarrow> concentration_flags t) =
     {f. hs \<noteq> [] \<and> (\<exists>t. sum_percent s hs 0 = Inr t \<and>
           ((f = flag_high \<and> 50 < t) \<or> (f = flag_moderate \<and> 20 < t \<and> t \<le> 50)))}"
  by (cases "sum_percent s hs 0") (auto simp: concentration_flags_set)

lemma run_flags_set:
  assumes "performSecurityChecks p a = Inr r"
  shows "set (flags r) =
     {f. (f = flag_mint \<and> (\<exists>mi. chainReader p a = Resolved mi \<and> mintAuthority mi \<noteq> None)) \<or>
         (f = flag_freeze \<and> (\<exists>mi. chainReader p a = Resolved mi \<and> freezeAuthority mi \<noteq> None))} \<union>
     {f. f = flag_creator \<and>
         (\<exists>m c. getTokenMeta p a = Some m \<and> meta_creator m = Some c \<and> share c > 10)} \<union>
     {f. (f = flag_no_lp \<and> getDexPairs p a = []) \<or>
         (f = flag_tiny_lp \<and> (\<exists>first rest. getDexPairs p a = first # rest \<and>
            or_zero (liquidity_usd (main_pair first (getDexPairs p a))) < 20000)) \<or>
         (f = flag_lp_mint \<and> getDexPairs p a \<noteq> [] \<and>
            (\<exists>mi. chainReader p a = Resolved mi \<and> mintAuthority mi \<noteq> None))} \<union>
     {f. getTopHolders p a 10 \<noteq> [] \<and>
         (\<exists>t. sum_percent (total_supply (getTokenMeta p a)) (getTopHolders p a 10) 0 = Inr t \<and>
           ((f = flag_high \<and> 50 < t) \<or> (f = flag_moderate \<and> 20 < t \<and> t \<le> 50)))} \<union>
     {f. f = flag_dumps \<and> 2 < snd (foldl count_tx (0, 0) (getRecentTransactions p a 20))}"
  unfolding run_flags [OF assms] set_append authority_flags_set creator_flags_set
    liquidity_flags_set holder_flags_set dump_flags_set
  by (simp only: Un_assoc)

subsection \<open>When a run returns\<close>

lemma check_lpHealth_returns:
  "authorities r = Populated au \<or> pairs = [] \<Longrightarrow> \<exists>r'. check_lpHealth pairs r = Inr r'"
  by (cases pairs) (auto simp: check_lpHealth_def Let_def)

lemma check_tokenDistribution_returns:
  "sum_percent (total_supply tm) hs 0 = Inr t \<Longrightarrow> \<exists>r'. check_tokenDistribution tm hs r = Inr r'"
  by (simp add: check_tokenDistribution_def Let_def)

lemma run_returns:
  assumes "(\<exists>mi. chainReader p a = Resolved mi) \<or> getDexPairs p a = []"
    and "sum_percent (total_supply (getTokenMeta p a)) (getTopHolders p a 10) 0 = Inr t"
  shows "\<exists>r. performSecurityChecks p a = Inr r"
proof -
  let ?r2 = "check_adminKeys (getTokenMeta p a) (check_authorities (chainReader p a) initial_report)"
  have "(\<exists>au. authorities ?r2 = Populated au) \<or> getDexPairs p a = []"
    using assms(1) by (auto simp: check_adminKeys_authorities check_authorities_section)
  then obtain r3 where lp: "check_lpHealth (getDexPairs p a) ?r2 = Inr r3"
    using check_lpHealth_returns by blast
  obtain r4 where td: "check_tokenDistribution (getTokenMeta p a) (getTopHolders p a 10) r3 = Inr r4"
    using check_tokenDistribution_returns [OF assms(2)] by blast
  show ?thesis
    by (simp add: performSecurityChecks_def uncapped_checks_def Let_def lp td)
qed

text \<open>A run returns a report exactly when neither exception is raised.\<close>

lemma sum_percent_returns_iff:
  "(\<exists>t. sum_percent s hs acc = Inr t) \<longleftrightarrow> hs = [] \<or> s \<noteq> 0"
  by (induction hs arbitrary: acc) auto

lemma run_returns_iff:
  "(\<exists>r. performSecurityChecks p a = Inr r) \<longleftrightarrow>
     ((\<exists>mi. chainReader p a = Resolved mi) \<or> getDexPairs p a = []) \<and>
     (getTopHolders p a 10 = [] \<or> total_supply (getTokenMeta p a) \<noteq> 0)"
proof
  assume "\<exists>r. performSecurityChecks p a = Inr r"
  then obtain r where run: "performSecurityChecks p a = Inr r" ..
  have "(\<exists>mi. chainReader p a = Resolved mi) \<or> getDexPairs p a = []"
  proof (cases "chainReader p a")
    case Rejected
    show ?thesis
    proof (rule ccontr)
      assume "\<not> ?thesis"
      then have "getDexPairs p a \<noteq> []" by simp
      then have "performSecurityChecks p a = Inl TypeError_includes_of_undefined"
        using Rejected
        by (simp add: performSecurityChecks_def uncapped_checks_def Let_def
            check_lpHealth_undefined check_adminKeys_authorities check_authorities_section)
      with run show False by simp
    qed
  next
    case (Resolved mi)
    then show ?thesis by simp
  qed
  moreover have "getTopHolders p a 10 = [] \<or> total_supply (getTokenMeta p a) \<noteq> 0"
  proof (rule ccontr)
    assume "\<not> ?thesis"
    then have "check_tokenDistribution (getTokenMeta p a) (getTopHolders p a 10) r3 =
                 Inl RangeError_division_by_zero" for r3
      by (simp add: check_tokenDistribution_zero_supply)
    then have "\<exists>e. performSecurityChecks p a = Inl e"
      by (simp add: performSecurityChecks_def uncapped_checks_def Let_def split: sum.splits)
    with run show False by auto
  qed
  ultimately show "((\<exists>mi. chainReader p a = Resolved mi) \<or> getDexPairs p a = []) \<and>
     (getTopHolders p a 10 = [] \<or> total_supply (getTokenMeta p a) \<noteq> 0)" ..
next
  assume a: "((\<exists>mi. chainReader p a = Resolved mi) \<or> getDexPairs p a = []) \<and>
     (getTopHolders p a 10 = [] \<or> total_supply (getTokenMeta p a) \<noteq> 0)"
  then obtain t where
    "sum_percent (total_supply (getTokenMeta p a)) (getTopHolders p a 10) 0 = Inr t"
    using sum_percent_returns_iff by blast
  with a show "\<exists>r. performSecurityChecks p a = Inr r"
    using run_returns by blast
qed

lemma run_score:
  assumes "performSecurityChecks p a = Inr r"
  shows "riskScore r = min (sum_list (map score_delta (flags r))) 100"
proof -
  from assms obtain r' where run: "uncapped_checks p a = Inr r'" and r: "r = cap_score r'"
    using capped_run by blast
  show ?thesis
    using scored_uncapped [OF run] by (simp add: r cap_score_def scored_def)
qed

subsection \<open>Two evaluated runs\<close>

lemmas run_defs =
  performSecurityChecks_def uncapped_checks_def cap_score_def initial_report_def
  check_authorities_def check_adminKeys_def check_lpHealth_def check_tokenDistribution_def
  check_transactionPatterns_def getTokenMeta_def getTopHolders_def getDexPairs_def
  getRecentTransactions_def main_pair_def js_gt_def or_zero_def total_supply_def
  holder_count_of_def raise_flag_def count_tx_def

lemma run_risky:
  "performSecurityChecks risky_providers example_token = Inr
     \<lparr>authorities = Populated \<lparr>authorities_mintAuthority = mint_active,
                                authorities_freezeAuthority = freeze_active\<rparr>,
      adminKeys = Populated \<lparr>adminKeys_creator = Creator_share_text ''Creator1'' 50,
        adminKeys_note = ''Check if creator wallet has multisig or renounced control (manual review recommended)''\<rparr>,
      lpHealth = Populated \<lparr>dex = ''raydium'', liquidityUSD = 100, volume24h = 5,
        lp_pairAddress = ''Pair1'',
        lp_note = ''LP lock status: Use manual check on Solscan for LP mint supply/burns (advanced: integrate SolSniffer API)''\<rparr>,
      tokenDistribution = Populated \<lparr>top10HoldersPercent = 100, holderCount = Holders 2\<rparr>,
      transactionPatterns = Error ''Failed to fetch transactions'',
      riskScore = 100,
      flags = [flag_mint, flag_freeze, flag_creator, flag_tiny_lp, flag_lp_mint, flag_high]\<rparr>"
  by (simp add: run_defs risky_providers_def Let_def enat_zero_num numeral_eq_enat
      double_add_exact to_double_exact)

lemma run_quiet:
  "performSecurityChecks quiet_providers example_token = Inr
     \<lparr>authorities = Populated \<lparr>authorities_mintAuthority = renounced,
                                authorities_freezeAuthority = renounced\<rparr>,
      adminKeys = Error ''Failed to fetch token meta'',
      lpHealth = Populated \<lparr>dex = ''raydium'', liquidityUSD = 50000, volume24h = 5,
        lp_pairAddress = ''Pair1'',
        lp_note = ''LP lock status: Use manual check on Solscan for LP mint supply/burns (advanced: integrate SolSniffer API)''\<rparr>,
      tokenDistribution = Error ''Failed to fetch holders'',
      transactionPatterns = Error ''Failed to fetch transactions'',
      riskScore = 0,
      flags = []\<rparr>"
  by (simp add: run_defs quiet_providers_def Let_def)

lemma run_long_tail:
  "performSecurityChecks long_tail_providers example_token = Inr
     \<lparr>authorities = Populated \<lparr>authorities_mintAuthority = renounced,
                                authorities_freezeAuthority = renounced\<rparr>,
      adminKeys = Populated \<lparr>adminKeys_creator = Creator_unknown,
        adminKeys_note = ''Check if creator wallet has multisig or renounced control (manual review recommended)''\<rparr>,
      lpHealth = Populated \<lparr>dex = ''raydium'', liquidityUSD = 50000, volume24h = 5,
        lp_pairAddress = ''Pair1'',
        lp_note = ''LP lock status: Use manual check on Solscan for LP mint supply/burns (advanced: integrate SolSniffer API)''\<rparr>,
      tokenDistribution = Populated \<lparr>top10HoldersPercent = 99, holderCount = Holders 3\<rparr>,
      transactionPatterns = Error ''Failed to fetch transactions'',
      riskScore = 25,
      flags = [flag_high]\<rparr>"
  by (simp add: run_defs long_tail_providers_def Let_def enat_zero_num numeral_eq_enat
      double_add_exact to_double_exact)

subsection \<open>C1: one failed provider can abort the run\<close>

text \<open>
  C1 says that no pattern of provider failures aborts the run. The handler of the chain
  reader only marks the \<open>authorities\<close> section; the liquidity check then reads
  \<^verbatim>\<open>report.authorities.mintAuthority.includes\<close> on that marked section. So whenever the
  chain reader fails and the DEX reader answers with at least one pair, the run ends in an
  uncaught TypeError and no report is returned.
\<close>

theorem chain_failure_aborts_run:
  assumes "chainReader p tokenAddress = Rejected"
    and "getDexPairs p tokenAddress \<noteq> []"
  shows "performSecurityChecks p tokenAddress = Inl TypeError_includes_of_undefined"
proof -
  have "authorities (check_adminKeys (getTokenMeta p tokenAddress)
          (check_authorities (chainReader p tokenAddress) initial_report)) =
        Error ''Failed to fetch on-chain mint info''"
    by (simp add: check_adminKeys_authorities check_authorities_section assms(1))
  then show ?thesis
    by (simp add: performSecurityChecks_def uncapped_checks_def Let_def
        check_lpHealth_undefined [OF _ assms(2)])
qed

theorem chain_failure_aborts_run_witness:
  "chainReader chain_down_providers example_token = Rejected \<and>
   getDexPairs chain_down_providers example_token \<noteq> [] \<and>
   performSecurityChecks chain_down_providers example_token = Inl TypeError_includes_of_undefined"
proof -
  have 1: "chainReader chain_down_providers example_token = Rejected"
    by (simp add: chain_down_providers_def)
  have 2: "getDexPairs chain_down_providers example_token \<noteq> []"
    by (simp add: chain_down_providers_def getDexPairs_def)
  show ?thesis
    using 1 2 chain_failure_aborts_run [OF 1 2] by simp
qed

subsection \<open>C2: the score is clamped\<close>

text \<open>
  C2. Every returned report has a \<open>riskScore\<close> in \<open>[0, 100]\<close>: it is the sum of the deltas
  of the rules that fired (one per flag), capped at 100. So a sum of at least 100 is
  reported as exactly 100, and a sum of at most 0 as exactly 0 (no delta is negative, so
  the sum itself is never below 0).
\<close>

theorem riskScore_clamped:
  assumes "performSecurityChecks p tokenAddress = Inr r"
  shows "0 \<le> riskScore r \<and> riskScore r \<le> 100 \<and>
         riskScore r = min (sum_list (map score_delta (flags r))) 100 \<and>
         (100 \<le> sum_list (map score_delta (flags r)) \<longrightarrow> riskScore r = 100) \<and>
         (sum_list (map score_delta (flags r)) \<le> 0 \<longrightarrow> riskScore r = 0)"
proof -
  from assms obtain r' where run: "uncapped_checks p tokenAddress = Inr r'"
    and r: "r = cap_score r'"
    using capped_run by blast
  have "riskScore r' = sum_list (map score_delta (flags r'))"
    using scored_uncapped [OF run] by (simp add: scored_def)
  moreover have "flags r = flags r'" "riskScore r = min (riskScore r') 100"
    by (simp_all add: r cap_score_def)
  moreover have "0 \<le> sum_list (map score_delta (flags r'))"
    by (rule score_sum_nonneg)
  ultimately show ?thesis by auto
qed

theorem riskScore_clamped_witness:
  "(\<exists>r. performSecurityChecks risky_providers example_token = Inr r \<and>
        100 \<le> sum_list (map score_delta (flags r)) \<and> riskScore r = 100) \<and>
   (\<exists>r. performSecurityChecks quiet_providers example_token = Inr r \<and>
        sum_list (map score_delta (flags r)) \<le> 0 \<and> riskScore r = 0)"
  using riskScore_clamped [OF run_risky] riskScore_clamped [OF run_quiet]
  by (simp add: run_risky run_quiet)

subsection \<open>C3: a failed chain reader and the liquidity section\<close>

text \<open>
  C3 says that after a failed chain reader the liquidity, holder and transaction sections
  are still populated from their own sources. No run with a failed chain reader returns a
  report whose liquidity section is populated: with at least one pair the run throws (the
  TypeError of C1), and with no pair the section is the error marker.
\<close>

theorem chain_failure_liquidity_never_populated:
  assumes "chainReader p tokenAddress = Rejected"
  shows "\<not> (\<exists>r l. performSecurityChecks p tokenAddress = Inr r \<and> lpHealth r = Populated l)"
proof (cases "getDexPairs p tokenAddress = []")
  case True
  then show ?thesis
    by (auto dest!: run_lpHealth)
next
  case False
  have "authorities (check_adminKeys (getTokenMeta p tokenAddress)
          (check_authorities (chainReader p tokenAddress) initial_report)) =
        Error ''Failed to fetch on-chain mint info''"
    by (simp add: check_adminKeys_authorities check_authorities_section assms)
  then have "performSecurityChecks p tokenAddress = Inl TypeError_includes_of_undefined"
    by (simp add: performSecurityChecks_def uncapped_checks_def Let_def
        check_lpHealth_undefined [OF _ False])
  then show ?thesis by simp
qed

theorem chain_failure_liquidity_never_populated_witness:
  "chainReader only_chain_down_providers example_token = Rejected \<and>
   metaReader only_chain_down_providers example_token \<noteq> Rejected \<and>
   holderReader only_chain_down_providers example_token 10 \<noteq> Rejected \<and>
   pairReader only_chain_down_providers example_token \<noteq> Rejected \<and>
   txReader only_chain_down_providers example_token 20 \<noteq> Rejected \<and>
   performSecurityChecks only_chain_down_providers example_token = Inl TypeError_includes_of_undefined \<and>
   \<not> (\<exists>r l. performSecurityChecks only_chain_down_providers example_token = Inr r \<and>
            lpHealth r = Populated l)"
proof -
  have 1: "chainReader only_chain_down_providers example_token = Rejected"
    by (simp add: only_chain_down_providers_def)
  have "performSecurityChecks only_chain_down_providers example_token =
          Inl TypeError_includes_of_undefined"
    by (simp add: run_defs only_chain_down_providers_def Let_def)
  then show ?thesis
    using chain_failure_liquidity_never_populated [OF 1]
    by (simp add: only_chain_down_providers_def)
qed

subsection \<open>C4: a flag for each rule that holds\<close>

text \<open>
  C4 says that a rule never fires on the data of a provider that failed. The helper
  \<^verbatim>\<open>getDexPairs\<close> answers \<^verbatim>\<open>[]\<close> when its request fails, and the liquidity check reads an
  empty list as a token without pools: with every reader failing, the report still
  carries \<^verbatim>\<open>No liquidity pools detected\<close> and a score of 30.
\<close>

theorem failed_dex_reader_is_flagged:
  "pairReader silent_providers example_token = Rejected \<and>
   performSecurityChecks silent_providers example_token = Inr
     \<lparr>authorities = Error ''Failed to fetch on-chain mint info'',
      adminKeys = Error ''Failed to fetch token meta'',
      lpHealth = Error ''No DEX pairs found'',
      tokenDistribution = Error ''Failed to fetch holders'',
      transactionPatterns = Error ''Failed to fetch transactions'',
      riskScore = 30,
      flags = [flag_no_lp]\<rparr>"
  by (simp add: run_defs silent_providers_def Let_def)

text \<open>
  C4, amended. In every returned report each flag is present exactly when the condition
  of its rule holds on what the readers answered; nothing else is ever flagged, and the
  score is the capped sum of the deltas of the flags. A failed chain, metadata, holder or
  transaction reader therefore contributes no flag and no delta. The DEX-pair reader is
  the exception: its failure cannot be told from an empty answer, and both raise
  \<^verbatim>\<open>No liquidity pools detected\<close> with its delta of 30.
\<close>

theorem flag_iff_rule_condition:
  assumes "performSecurityChecks p tokenAddress = Inr r"
  shows
    "(flag_mint \<in> set (flags r) \<longleftrightarrow>
        (\<exists>mi. chainReader p tokenAddress = Resolved mi \<and> mintAuthority mi \<noteq> None)) \<and>
     (flag_freeze \<in> set (flags r) \<longleftrightarrow>
        (\<exists>mi. chainReader p tokenAddress = Resolved mi \<and> freezeAuthority mi \<noteq> None)) \<and>
     (flag_creator \<in> set (flags r) \<longleftrightarrow>
        (\<exists>m c. metaReader p tokenAddress = Resolved (Some m) \<and> meta_creator m = Some c \<and>
               share c > 10)) \<and>
     (flag_tiny_lp \<in> set (flags r) \<longleftrightarrow>
        (\<exists>first rest. pairReader p tokenAddress = Resolved (Some (first # rest)) \<and>
               or_zero (liquidity_usd (main_pair first (first # rest))) < 20000)) \<and>
     (flag_lp_mint \<in> set (flags r) \<longleftrightarrow>
        (\<exists>first rest mi. pairReader p tokenAddress = Resolved (Some (first # rest)) \<and>
               chainReader p tokenAddress = Resolved mi \<and> mintAuthority mi \<noteq> None)) \<and>
     (flag_no_lp \<in> set (flags r) \<longleftrightarrow>
        pairReader p tokenAddress = Rejected \<or> pairReader p tokenAddress = Resolved None \<or>
        pairReader p tokenAddress = Resolved (Some [])) \<and>
     (flag_high \<in> set (flags r) \<longleftrightarrow>
        (\<exists>hs t. holderReader p tokenAddress 10 = Resolved (Some hs) \<and> hs \<noteq> [] \<and>
               sum_percent (total_supply (getTokenMeta p tokenAddress)) hs 0 = Inr t \<and> 50 < t)) \<and>
     (flag_moderate \<in> set (flags r) \<longleftrightarrow>
        (\<exists>hs t. holderReader p tokenAddress 10 = Resolved (Some hs) \<and> hs \<noteq> [] \<and>
               sum_percent (total_supply (getTokenMeta p tokenAddress)) hs 0 = Inr t \<and>
               20 < t \<and> t \<le> 50)) \<and>
     (flag_dumps \<in> set (flags r) \<longleftrightarrow>
        (\<exists>ts. txReader p tokenAddress 20 = Resolved (Some ts) \<and>
               2 < snd (foldl count_tx (0, 0) ts))) \<and>
     set (flags r) \<subseteq> {flag_mint, flag_freeze, flag_creator, flag_tiny_lp, flag_lp_mint,
                         flag_no_lp, flag_high, flag_moderate, flag_dumps} \<and>
     riskScore r = min (sum_list (map score_delta (flags r))) 100"
proof -
  note fl = run_flags_set [OF assms]
  have mint: "flag_mint \<in> set (flags r) \<longleftrightarrow>
        (\<exists>mi. chainReader p tokenAddress = Resolved mi \<and> mintAuthority mi \<noteq> None)"
    by (simp add: fl)
  have freeze: "flag_freeze \<in> set (flags r) \<longleftrightarrow>
        (\<exists>mi. chainReader p tokenAddress = Resolved mi \<and> freezeAuthority mi \<noteq> None)"
    by (simp add: fl)
  have creator: "flag_creator \<in> set (flags r) \<longleftrightarrow>
        (\<exists>m c. metaReader p tokenAddress = Resolved (Some m) \<and> meta_creator m = Some c \<and>
               share c > 10)"
    by (simp add: fl getTokenMeta_Some_iff)
  have tiny: "flag_tiny_lp \<in> set (flags r) \<longleftrightarrow>
        (\<exists>first rest. pairReader p tokenAddress = Resolved (Some (first # rest)) \<and>
               or_zero (liquidity_usd (main_pair first (first # rest))) < 20000)"
    by (auto simp: fl getDexPairs_Cons_iff [symmetric])
  have lp_mint: "flag_lp_mint \<in> set (flags r) \<longleftrightarrow>
        (\<exists>first rest mi. pairReader p tokenAddress = Resolved (Some (first # rest)) \<and>
               chainReader p tokenAddress = Resolved mi \<and> mintAuthority mi \<noteq> None)"
    by (auto simp: fl getDexPairs_Cons_iff [symmetric] neq_Nil_conv)
  have no_lp: "flag_no_lp \<in> set (flags r) \<longleftrightarrow>
        pairReader p tokenAddress = Rejected \<or> pairReader p tokenAddress = Resolved None \<or>
        pairReader p tokenAddress = Resolved (Some [])"
    by (simp add: fl getDexPairs_Nil_iff)
  have high: "flag_high \<in> set (flags r) \<longleftrightarrow>
        (\<exists>hs t. holderReader p tokenAddress 10 = Resolved (Some hs) \<and> hs \<noteq> [] \<and>
               sum_percent (total_supply (getTokenMeta p tokenAddress)) hs 0 = Inr t \<and> 50 < t)"
    by (auto simp: fl getTopHolders_nonempty_iff getTopHolders_Resolved)
  have moderate: "flag_moderate \<in> set (flags r) \<longleftrightarrow>
        (\<exists>hs t. holderReader p tokenAddress 10 = Resolved (Some hs) \<and> hs \<noteq> [] \<and>
               sum_percent (total_supply (getTokenMeta p tokenAddress)) hs 0 = Inr t \<and>
               20 < t \<and> t \<le> 50)"
    by (auto simp: fl getTopHolders_nonempty_iff getTopHolders_Resolved)
  have dumps: "flag_dumps \<in> set (flags r) \<longleftrightarrow>
        (\<exists>ts. txReader p tokenAddress 20 = Resolved (Some ts) \<and>
               2 < snd (foldl count_tx (0, 0) ts))"
  proof
    assume "flag_dumps \<in> set (flags r)"
    then have d: "2 < snd (foldl count_tx (0, 0) (getRecentTransactions p tokenAddress 20))"
      by (simp add: fl)
    then have "getRecentTransactions p tokenAddress 20 \<noteq> []"
      by auto
    then obtain ts where "txReader p tokenAddress 20 = Resolved (Some ts)"
      by (auto simp: getRecentTransactions_nonempty_iff)
    with d show "\<exists>ts. txReader p tokenAddress 20 = Resolved (Some ts) \<and>
               2 < snd (foldl count_tx (0, 0) ts)"
      by (auto simp: getRecentTransactions_Resolved)
  next
    assume "\<exists>ts. txReader p tokenAddress 20 = Resolved (Some ts) \<and>
               2 < snd (foldl count_tx (0, 0) ts)"
    then show "flag_dumps \<in> set (flags r)"
      by (auto simp: fl getRecentTransactions_Resolved)
  qed
  have known: "set (flags r) \<subseteq> {flag_mint, flag_freeze, flag_creator, flag_tiny_lp, flag_lp_mint,
                         flag_no_lp, flag_high, flag_moderate, flag_dumps}"
    unfolding fl by blast
  have score: "riskScore r = min (sum_list (map score_delta (flags r))) 100"
  proof -
    from assms obtain r' where run: "uncapped_checks p tokenAddress = Inr r'"
      and r: "r = cap_score r'"
      using capped_run by blast
    show ?thesis
      using scored_uncapped [OF run] by (simp add: r cap_score_def scored_def)
  qed
  from mint freeze creator tiny lp_mint no_lp high moderate dumps known score
  show ?thesis by blast
qed

theorem flag_iff_rule_condition_witness:
  "\<exists>r. performSecurityChecks risky_providers example_token = Inr r \<and>
       flag_mint \<in> set (flags r) \<and> flag_no_lp \<notin> set (flags r) \<and>
       txReader risky_providers example_token 20 = Rejected \<and> flag_dumps \<notin> set (flags r)"
proof -
  obtain r where run: "performSecurityChecks risky_providers example_token = Inr r"
    using run_risky by blast
  note iff = flag_iff_rule_condition [OF run]
  have "\<exists>mi. chainReader risky_providers example_token = Resolved mi \<and> mintAuthority mi \<noteq> None"
    by (simp add: risky_providers_def)
  with iff have mint: "flag_mint \<in> set (flags r)"
    by blast
  have pairs: "pairReader risky_providers example_token \<noteq> Rejected"
    "pairReader risky_providers example_token \<noteq> Resolved None"
    "pairReader risky_providers example_token \<noteq> Resolved (Some [])"
    by (simp_all add: risky_providers_def)
  with iff have no_lp: "flag_no_lp \<notin> set (flags r)"
    by blast
  have tx: "txReader risky_providers example_token 20 = Rejected"
    by (simp add: risky_providers_def)
  with iff have "flag_dumps \<notin> set (flags r)"
    by simp
  with run mint no_lp tx show ?thesis
    by blast
qed

subsection \<open>C5: both authorities active\<close>

text \<open>
  C5 says that with both authorities active and no other rule condition holding, the score
  is 50 and the flags are the two authority flags. With an active mint authority the
  liquidity check always adds a third flag: \<^verbatim>\<open>Potential LP risk due to active mint\<close> when a
  pair is listed, \<^verbatim>\<open>No liquidity pools detected\<close> when none is. Here no metadata, holders or
  transactions are known and the one pool is deeper than $20,000, and the score is 60.
\<close>

theorem both_authorities_score_is_60:
  "chainReader authority_only_providers example_token =
     Resolved \<lparr>mintAuthority = Some ''Auth1'', freezeAuthority = Some ''Auth2''\<rparr> \<and>
   getTokenMeta authority_only_providers example_token = None \<and>
   getDexPairs authority_only_providers example_token =
     [\<lparr>dexId = ''raydium'', pairAddress = ''Pair1'', liquidity_usd = Some 50000,
       volume_h24 = Some 5\<rparr>] \<and>
   getTopHolders authority_only_providers example_token 10 = [] \<and>
   getRecentTransactions authority_only_providers example_token 20 = [] \<and>
   performSecurityChecks authority_only_providers example_token = Inr
     \<lparr>authorities = Populated \<lparr>authorities_mintAuthority = mint_active,
                                authorities_freezeAuthority = freeze_active\<rparr>,
      adminKeys = Error ''Failed to fetch token meta'',
      lpHealth = Populated \<lparr>dex = ''raydium'', liquidityUSD = 50000, volume24h = 5,
        lp_pairAddress = ''Pair1'',
        lp_note = ''LP lock status: Use manual check on Solscan for LP mint supply/burns (advanced: integrate SolSniffer API)''\<rparr>,
      tokenDistribution = Error ''Failed to fetch holders'',
      transactionPatterns = Error ''Failed to fetch transactions'',
      riskScore = 60,
      flags = [flag_mint, flag_freeze, flag_lp_mint]\<rparr>"
  by (simp add: run_defs authority_only_providers_def Let_def)

text \<open>With an active mint authority one of the two liquidity flags is always present.\<close>

lemma active_mint_third_flag:
  assumes "performSecurityChecks p a = Inr r"
    and "chainReader p a = Resolved mi" and "mintAuthority mi \<noteq> None"
  shows "flag_lp_mint \<in> set (flags r) \<or> flag_no_lp \<in> set (flags r)"
  using assms(2,3) by (cases "getDexPairs p a") (simp_all add: run_flags_set [OF assms(1)])

text \<open>
  C5, amended. When both authorities are active, at least one pair is listed and the main
  pair holds at least $20,000, the creator holds at most 10%, the top-10 share is at most
  20 (or no holder is listed) and at most two large dumps are seen, the run returns a
  report with score exactly 60 and flags exactly \<^verbatim>\<open>Mint authority active\<close>,
  \<^verbatim>\<open>Freeze authority active\<close>, \<^verbatim>\<open>Potential LP risk due to active mint\<close>, in that order.
\<close>

theorem both_authorities_score:
  assumes "chainReader p tokenAddress = Resolved mi"
    and "mintAuthority mi \<noteq> None" and "freezeAuthority mi \<noteq> None"
    and "\<not> (\<exists>m c. getTokenMeta p tokenAddress = Some m \<and> meta_creator m = Some c \<and> 10 < share c)"
    and "getDexPairs p tokenAddress = first # rest"
    and "20000 \<le> or_zero (liquidity_usd (main_pair first (first # rest)))"
    and "sum_percent (total_supply (getTokenMeta p tokenAddress))
           (getTopHolders p tokenAddress 10) 0 = Inr t"
    and "t \<le> 20"
    and "snd (foldl count_tx (0, 0) (getRecentTransactions p tokenAddress 20)) \<le> 2"
  shows "\<exists>r. performSecurityChecks p tokenAddress = Inr r \<and> riskScore r = 60 \<and>
             flags r = [flag_mint, flag_freeze, flag_lp_mint]"
proof -
  obtain r where run: "performSecurityChecks p tokenAddress = Inr r"
    using run_returns [OF _ assms(7)] assms(1) by blast
  have 1: "authority_flags (chainReader p tokenAddress) = [flag_mint, flag_freeze]"
    using assms(1-3) by (simp add: authority_flags_def)
  have 2: "creator_flags (getTokenMeta p tokenAddress) = []"
    using assms(4) by (auto simp: creator_flags_def split: option.splits)
  have 3: "liquidity_flags (chainReader p tokenAddress) (getDexPairs p tokenAddress) = [flag_lp_mint]"
    using assms(1,2,5,6) by (simp add: liquidity_flags_def)
  have 4: "(if getTopHolders p tokenAddress 10 = [] then []
            else case sum_percent (total_supply (getTokenMeta p tokenAddress))
                        (getTopHolders p tokenAddress 10) 0 of
                   Inl e \<Rightarrow> [] | Inr t \<Rightarrow> concentration_flags t) = []"
  proof -
    have "\<not> 50 < t" "\<not> 20 < t"
      using assms(8) by (cases t; simp add: numeral_eq_enat)+
    then show ?thesis
      by (simp add: assms(7) concentration_flags_def)
  qed
  have 5: "dump_flags (getRecentTransactions p tokenAddress 20) = []"
    using assms(9) by (simp add: dump_flags_def)
  have fl: "flags r = [flag_mint, flag_freeze, flag_lp_mint]"
    unfolding run_flags [OF run] 1 2 3 4 5 by simp
  have "riskScore r = 60"
    by (simp add: run_score [OF run] fl)
  with run fl show ?thesis by simp
qed

theorem both_authorities_score_witness:
  "\<exists>r. performSecurityChecks authority_only_providers example_token = Inr r \<and> riskScore r = 60 \<and>
       flags r = [flag_mint, flag_freeze, flag_lp_mint]"
proof (rule both_authorities_score)
  show "chainReader authority_only_providers example_token =
          Resolved \<lparr>mintAuthority = Some ''Auth1'', freezeAuthority = Some ''Auth2''\<rparr>"
    by (simp add: authority_only_providers_def)
  show "mintAuthority \<lparr>mintAuthority = Some ''Auth1'', freezeAuthority = Some ''Auth2''\<rparr> \<noteq> None"
    by simp
  show "freezeAuthority \<lparr>mintAuthority = Some ''Auth1'', freezeAuthority = Some ''Auth2''\<rparr> \<noteq> None"
    by simp
  show "\<not> (\<exists>m c. getTokenMeta authority_only_providers example_token = Some m \<and>
               meta_creator m = Some c \<and> 10 < share c)"
    by (simp add: authority_only_providers_def getTokenMeta_def)
  show "getDexPairs authority_only_providers example_token =
          \<lparr>dexId = ''raydium'', pairAddress = ''Pair1'', liquidity_usd = Some 50000,
            volume_h24 = Some 5\<rparr> # []"
    by (simp add: authority_only_providers_def getDexPairs_def)
  show "20000 \<le> or_zero (liquidity_usd (main_pair
          \<lparr>dexId = ''raydium'', pairAddress = ''Pair1'', liquidity_usd = Some 50000,
            volume_h24 = Some 5\<rparr>
          [\<lparr>dexId = ''raydium'', pairAddress = ''Pair1'', liquidity_usd = Some 50000,
            volume_h24 = Some 5\<rparr>]))"
    by (simp add: main_pair_def js_gt_def or_zero_def)
  show "sum_percent (total_supply (getTokenMeta authority_only_providers example_token))
           (getTopHolders authority_only_providers example_token 10) 0 = Inr 0"
    by (simp add: authority_only_providers_def getTopHolders_def)
  show "(0::enat) \<le> 20"
    by simp
  show "snd (foldl count_tx (0, 0) (getRecentTransactions authority_only_providers example_token 20)) \<le> 2"
    by (simp add: authority_only_providers_def getRecentTransactions_def)
qed

subsection \<open>C6: two holders owning the whole supply\<close>

lemma sum_percent_600_400:
  "sum_percent 1000 [\<lparr>owner = o1, amount = 600\<rparr>, \<lparr>owner = o2, amount = 400\<rparr>] 0 = Inr 100"
  by (simp add: enat_zero_num numeral_eq_enat double_add_exact to_double_exact)

text \<open>
  C6. With the holders \<^verbatim>\<open>[{amount: 600}, {amount: 400}]\<close> and a supply of 1000, the
  distribution check reports \<open>top10HoldersPercent = 100\<close>, appends
  \<^verbatim>\<open>High concentration (>50% in top 10)\<close> and adds exactly 25 to the score; every report
  the run returns has that section and that flag, and its score is the capped sum of
  the deltas, 25 for this flag.
\<close>

theorem high_concentration_example:
  assumes "getTokenMeta p tokenAddress = Some m" and "meta_supply m = Some 1000"
    and "getTopHolders p tokenAddress 10 =
           [\<lparr>owner = o1, amount = 600\<rparr>, \<lparr>owner = o2, amount = 400\<rparr>]"
  shows "(\<exists>r1. check_tokenDistribution (getTokenMeta p tokenAddress)
                 (getTopHolders p tokenAddress 10) r0 = Inr r1 \<and>
               tokenDistribution r1 =
                 Populated \<lparr>top10HoldersPercent = 100, holderCount = holder_count_of (Some m)\<rparr> \<and>
               flags r1 = flags r0 @ [flag_high] \<and>
               riskScore r1 = riskScore r0 + 25) \<and>
         (\<forall>r. performSecurityChecks p tokenAddress = Inr r \<longrightarrow>
               tokenDistribution r =
                 Populated \<lparr>top10HoldersPercent = 100, holderCount = holder_count_of (Some m)\<rparr> \<and>
               flag_high \<in> set (flags r) \<and> score_delta flag_high = 25 \<and>
               riskScore r = min (sum_list (map score_delta (flags r))) 100)"
proof -
  have ts: "total_supply (getTokenMeta p tokenAddress) = 1000"
    using assms(1,2) by (simp add: total_supply_def)
  have sp: "sum_percent (total_supply (getTokenMeta p tokenAddress))
              (getTopHolders p tokenAddress 10) 0 = Inr 100"
    by (simp only: ts assms(3) sum_percent_600_400)
  have sp': "sum_percent (total_supply (Some m)) (getTopHolders p tokenAddress 10) 0 = Inr 100"
    using sp by (simp only: assms(1))
  have ne: "getTopHolders p tokenAddress 10 \<noteq> []"
    by (simp add: assms(3))
  have step: "\<exists>r1. check_tokenDistribution (getTokenMeta p tokenAddress)
                 (getTopHolders p tokenAddress 10) r0 = Inr r1 \<and>
               tokenDistribution r1 =
                 Populated \<lparr>top10HoldersPercent = 100, holderCount = holder_count_of (Some m)\<rparr> \<and>
               flags r1 = flags r0 @ [flag_high] \<and>
               riskScore r1 = riskScore r0 + 25"
    using ne by (simp add: check_tokenDistribution_def sp' Let_def assms(1))
  have run: "tokenDistribution r =
                 Populated \<lparr>top10HoldersPercent = 100, holderCount = holder_count_of (Some m)\<rparr> \<and>
               flag_high \<in> set (flags r) \<and> score_delta flag_high = 25 \<and>
               riskScore r = min (sum_list (map score_delta (flags r))) 100"
    if "performSecurityChecks p tokenAddress = Inr r" for r
    using ne
    by (simp add: run_tokenDistribution [OF that] run_flags_set [OF that] run_score [OF that]
        sp' assms(1))
  from step run show ?thesis by blast
qed

theorem high_concentration_example_witness:
  "\<exists>r. performSecurityChecks risky_providers example_token = Inr r \<and>
       tokenDistribution r =
         Populated \<lparr>top10HoldersPercent = 100, holderCount = Holders 2\<rparr> \<and>
       flag_high \<in> set (flags r)"
proof -
  have 1: "getTokenMeta risky_providers example_token = Some
        \<lparr>meta_creator = Some \<lparr>address = ''Creator1'', share = 50\<rparr>,
         meta_supply = Some 1000, meta_holder = Some 2\<rparr>"
    by (simp add: risky_providers_def getTokenMeta_def)
  have 2: "meta_supply \<lparr>meta_creator = Some \<lparr>address = ''Creator1'', share = 50\<rparr>,
         meta_supply = Some 1000, meta_holder = Some 2\<rparr> = Some 1000"
    by simp
  have 3: "getTopHolders risky_providers example_token 10 =
        [\<lparr>owner = ''Wallet1'', amount = 600\<rparr>, \<lparr>owner = ''Wallet2'', amount = 400\<rparr>]"
    by (simp add: risky_providers_def getTopHolders_def)
  show ?thesis
    using high_concentration_example [OF 1 2 3] run_risky
    by (simp add: holder_count_of_def)
qed

subsection \<open>C7: the two concentration rules exclude each other\<close>



subsection \<open>C8: a missing supply\<close>

text \<open>
  C8 says that a missing \<^verbatim>\<open>supply\<close> yields an error marker for the section and no division
  by an assumed default. The code takes \<^verbatim>\<open>0\<close> for a missing supply
  (\<^verbatim>\<open>tokenMeta?.supply || 0\<close>) and divides by it: with at least one holder the
  distribution check throws a RangeError, and the run returns no report at all.
\<close>

theorem missing_supply_aborts_run:
  assumes "getTokenMeta p tokenAddress = None \<or>
           (\<exists>m. getTokenMeta p tokenAddress = Some m \<and> meta_supply m = None)"
    and "getTopHolders p tokenAddress 10 \<noteq> []"
  shows "check_tokenDistribution (getTokenMeta p tokenAddress) (getTopHolders p tokenAddress 10) r0 =
           Inl RangeError_division_by_zero \<and>
         (\<exists>e. performSecurityChecks p tokenAddress = Inl e)"
proof -
  have "total_supply (getTokenMeta p tokenAddress) = 0"
    using assms(1) by (auto simp: total_supply_def)
  then have td: "check_tokenDistribution (getTokenMeta p tokenAddress)
                   (getTopHolders p tokenAddress 10) r = Inl RangeError_division_by_zero" for r
    using assms(2) by (rule check_tokenDistribution_zero_supply)
  then have "\<exists>e. performSecurityChecks p tokenAddress = Inl e"
    by (simp add: performSecurityChecks_def uncapped_checks_def Let_def split: sum.splits)
  with td show ?thesis by simp
qed

theorem missing_supply_aborts_run_witness:
  "(\<exists>m. getTokenMeta no_supply_providers example_token = Some m \<and> meta_supply m = None) \<and>
   getTopHolders no_supply_providers example_token 10 \<noteq> [] \<and>
   performSecurityChecks no_supply_providers example_token = Inl RangeError_division_by_zero"
proof -
  have 1: "getTokenMeta no_supply_providers example_token = None \<or>
           (\<exists>m. getTokenMeta no_supply_providers example_token = Some m \<and> meta_supply m = None)"
    by (simp add: no_supply_providers_def getTokenMeta_def)
  have 2: "getTopHolders no_supply_providers example_token 10 \<noteq> []"
    by (simp add: no_supply_providers_def getTopHolders_def)
  have "performSecurityChecks no_supply_providers example_token = Inl RangeError_division_by_zero"
    by (simp add: run_defs no_supply_providers_def Let_def)
  then show ?thesis
    using missing_supply_aborts_run [OF 1 2] 2
    by (simp add: no_supply_providers_def getTokenMeta_def)
qed

subsection \<open>C10: floors are taken before the sum\<close>

lemma sum_percent_exact:
  assumes "0 < s"
  shows "x + (\<Sum>h\<leftarrow>hs. amount h * 100 div s) < 2 ^ 53 \<Longrightarrow>
         sum_percent s hs (enat x) = Inr (enat (x + (\<Sum>h\<leftarrow>hs. amount h * 100 div s)))"
proof (induction hs arbitrary: x)
  case Nil
  then show ?case by simp
next
  case (Cons h hs)
  let ?q = "amount h * 100 div s"
  from Cons.prems have q: "?q < 2 ^ 53" and xq: "x + ?q < 2 ^ 53"
    and rest: "(x + ?q) + (\<Sum>h\<leftarrow>hs. amount h * 100 div s) < 2 ^ 53"
    by simp_all
  have "sum_percent s (h # hs) (enat x) = sum_percent s hs (enat (x + ?q))"
    using assms by (simp add: to_double_exact [OF q] double_add_exact [OF xq])
  also have "\<dots> = Inr (enat ((x + ?q) + (\<Sum>h\<leftarrow>hs. amount h * 100 div s)))"
    by (rule Cons.IH [OF rest])
  finally show ?case by (simp add: add.assoc)
qed

lemma floors_le_share:
  "(\<Sum>h\<leftarrow>hs. amount h * 100 div s) * s \<le> 100 * (\<Sum>h\<leftarrow>hs. amount h)"
proof (induction hs)
  case Nil
  then show ?case by simp
next
  case (Cons h hs)
  have "amount h * 100 div s * s \<le> amount h * 100"
    by simp
  then have "amount h * 100 div s * s + (\<Sum>h\<leftarrow>hs. amount h * 100 div s) * s \<le>
             amount h * 100 + 100 * (\<Sum>h\<leftarrow>hs. amount h)"
    using Cons.IH by (rule add_mono)
  then show ?case
    by (simp add: distrib_right distrib_left mult.commute)
qed

lemma floors_le_share_rat:
  assumes "0 < s"
  shows "(of_nat (\<Sum>h\<leftarrow>hs. amount h * 100 div s) :: rat) \<le>
         100 * of_nat (\<Sum>h\<leftarrow>hs. amount h) / of_nat s"
proof -
  have "(of_nat ((\<Sum>h\<leftarrow>hs. amount h * 100 div s) * s) :: rat) \<le>
        of_nat (100 * (\<Sum>h\<leftarrow>hs. amount h))"
    using floors_le_share by (simp only: of_nat_le_iff)
  then show ?thesis
    using assms by (simp add: pos_le_divide_eq)
qed

lemma floors_take_le:
  "(\<Sum>h\<leftarrow>take n hs. amount h * 100 div s) \<le> (\<Sum>h\<leftarrow>hs. amount h * 100 div (s::nat))"
proof (induction hs arbitrary: n)
  case Nil
  then show ?case by simp
next
  case (Cons h hs)
  then show ?case
    by (cases n) (simp_all add: add_mono)
qed

text \<open>
  C10 says that the reported percentage never exceeds the exact share. Each contribution
  is a floor, but it is then converted with \<^verbatim>\<open>Number\<close> and added as a double. One holder
  with \<open>9007199254740994\<close> units of a supply of \<open>99\<close> contributes the floor
  \<open>9098181065394943\<close>, which is above \<open>2 ^ 53\<close> and odd, hence not a double: \<^verbatim>\<open>Number\<close>
  rounds it up to \<open>9098181065394944\<close>, more than the exact share.
\<close>

theorem rounded_percent_exceeds_share:
  "sum_percent 99 [\<lparr>owner = ''Wallet1'', amount = 9007199254740994\<rparr>] 0 = Inr 9098181065394944 \<and>
   (100 * 9007199254740994 / 99 :: rat) < 9098181065394944"
  by (simp add: to_double_def double_add_def bit_length.simps Let_def enat_zero_num
      numeral_eq_enat)

text \<open>
  C10, amended. Each holder's contribution is the floor of \<open>amount * 100 / totalSupply\<close>,
  taken before the sum, so a holder with less than 1% of the supply contributes exactly 0.
  As long as the floors add up to less than \<open>2 ^ 53\<close> (every integer below is a double),
  the loop returns exactly the sum of the floors, which is at most the exact rational
  share; so does the loop of the tokenomics module over the first ten holders; and the
  report of a run carries that sum as \<open>top10HoldersPercent\<close>.
\<close>

theorem top10_percent_is_sum_of_floors:
  assumes "0 < totalSupply"
    and "(\<Sum>h\<leftarrow>holders. amount h * 100 div totalSupply) < 2 ^ 53"
  shows "sum_percent totalSupply holders 0 =
           Inr (enat (\<Sum>h\<leftarrow>holders. amount h * 100 div totalSupply)) \<and>
         (of_nat (\<Sum>h\<leftarrow>holders. amount h * 100 div totalSupply) :: rat) \<le>
           100 * of_nat (\<Sum>h\<leftarrow>holders. amount h) / of_nat totalSupply \<and>
         tokenomics_top10Percent totalSupply holders =
           Inr (enat (\<Sum>h\<leftarrow>take 10 holders. amount h * 100 div totalSupply)) \<and>
         (of_nat (\<Sum>h\<leftarrow>take 10 holders. amount h * 100 div totalSupply) :: rat) \<le>
           100 * of_nat (\<Sum>h\<leftarrow>take 10 holders. amount h) / of_nat totalSupply \<and>
         (\<forall>h. amount h * 100 < totalSupply \<longrightarrow>
              to_double (amount h * 100 div totalSupply) = 0) \<and>
         (\<forall>p a r. performSecurityChecks p a = Inr r \<and> getTopHolders p a 10 = holders \<and>
              holders \<noteq> [] \<and> total_supply (getTokenMeta p a) = totalSupply \<longrightarrow>
              (\<exists>d. tokenDistribution r = Populated d \<and>
                   top10HoldersPercent d =
                     enat (\<Sum>h\<leftarrow>holders. amount h * 100 div totalSupply)))"
proof -
  have all: "sum_percent totalSupply holders 0 =
           Inr (enat (\<Sum>h\<leftarrow>holders. amount h * 100 div totalSupply))"
    using sum_percent_exact [OF assms(1), of 0 holders] assms(2)
    by (simp add: enat_zero_num)
  have "(\<Sum>h\<leftarrow>take 10 holders. amount h * 100 div totalSupply) < 2 ^ 53"
    using floors_take_le assms(2) by (rule order_le_less_trans)
  then have top: "tokenomics_top10Percent totalSupply holders =
           Inr (enat (\<Sum>h\<leftarrow>take 10 holders. amount h * 100 div totalSupply))"
    using sum_percent_exact [OF assms(1), of 0 "take 10 holders"]
    by (simp add: enat_zero_num tokenomics_top10Percent_def)
  have small: "to_double (amount h * 100 div totalSupply) = 0"
    if "amount h * 100 < totalSupply" for h
    using that by (simp add: to_double_def enat_zero_num)
  have run: "\<exists>d. tokenDistribution r = Populated d \<and>
                   top10HoldersPercent d =
                     enat (\<Sum>h\<leftarrow>holders. amount h * 100 div totalSupply)"
    if "performSecurityChecks p a = Inr r" "getTopHolders p a 10 = holders"
       "holders \<noteq> []" "total_supply (getTokenMeta p a) = totalSupply" for p a r
    using that(2-4) all by (simp add: run_tokenDistribution [OF that(1)])
  from all top small run floors_le_share_rat [OF assms(1)] show ?thesis
    by blast
qed

theorem top10_percent_is_sum_of_floors_witness:
  "sum_percent 1000 (getTopHolders long_tail_providers example_token 10) 0 = Inr (enat 99) \<and>
   to_double (amount \<lparr>owner = ''Wallet3'', amount = 5\<rparr> * 100 div 1000) = 0 \<and>
   (99 :: rat) \<le> 100 * 1000 / 1000 \<and>
   (\<exists>r d. performSecurityChecks long_tail_providers example_token = Inr r \<and>
          tokenDistribution r = Populated d \<and> top10HoldersPercent d = enat 99)"
proof -
  let ?hs = "[\<lparr>owner = ''Wallet1'', amount = 600\<rparr>, \<lparr>owner = ''Wallet2'', amount = 395\<rparr>,
      \<lparr>owner = ''Wallet3'', amount = 5\<rparr>]"
  have hs: "getTopHolders long_tail_providers example_token 10 = ?hs"
    by (simp add: long_tail_providers_def getTopHolders_def)
  have ts: "total_supply (getTokenMeta long_tail_providers example_token) = 1000"
    by (simp add: long_tail_providers_def getTokenMeta_def total_supply_def)
  have floors: "(\<Sum>h\<leftarrow>?hs. amount h * 100 div 1000) = 99"
    by simp
  have 1: "(0::nat) < 1000"
    by simp
  have 2: "(\<Sum>h\<leftarrow>?hs. amount h * 100 div 1000) < 2 ^ 53"
    by simp
  note th = top10_percent_is_sum_of_floors [OF 1 2]
  have a: "sum_percent 1000 (getTopHolders long_tail_providers example_token 10) 0 = Inr (enat 99)"
    using th [THEN conjunct1] by (simp only: floors hs)
  have "amount \<lparr>owner = ''Wallet3'', amount = 5\<rparr> * 100 < 1000"
    by simp
  with th have b: "to_double (amount \<lparr>owner = ''Wallet3'', amount = 5\<rparr> * 100 div 1000) = 0"
    by blast
  have c: "(99 :: rat) \<le> 100 * 1000 / 1000"
    by simp
  obtain r where run: "performSecurityChecks long_tail_providers example_token = Inr r"
    using run_long_tail by blast
  have "?hs \<noteq> []"
    by simp
  with th run hs ts
  have "\<exists>d. tokenDistribution r = Populated d \<and>
            top10HoldersPercent d = enat (\<Sum>h\<leftarrow>?hs. amount h * 100 div 1000)"
    by blast
  with run have d: "\<exists>r d. performSecurityChecks long_tail_providers example_token = Inr r \<and>
          tokenDistribution r = Populated d \<and> top10HoldersPercent d = enat 99"
    by (simp only: floors) blast
  from a b c d show ?thesis
    by blast
qed

end
